theory Spec2Isabelle
  imports Complex_Main "HOL-Library.Char_ord" "HOL-Library.List_Lexorder"
    "HOL-Library.Multiset"
begin

section \<open>Tensors\<close>

text \<open>
  The exceptions that the Python of \<^verbatim>\<open>models/backbone_frozen.py\<close> and the torch
  operations it calls can raise. Every raise is a value \<open>Inl e\<close> of the model.
\<close>

datatype error =
  RuntimeError | AssertionError | TypeError | ValueError | IndexError | AttributeError
  | NotImplementedError

datatype dtype = Bool | Int64 | Float16 | Float32 | Float64

text \<open>
  An element of a tensor, as IEEE 754 has it: a finite number (\<open>Fin 0\<close> is the
  positive zero), the negative zero, the two infinities, or NaN.
\<close>

datatype fl = Fin real | NegZero | PInf | NInf | NaN

fun is_finite :: "fl \<Rightarrow> bool" where
  "is_finite (Fin r) = True"
| "is_finite NegZero = True"
| "is_finite v = False"

fun fl_value :: "fl \<Rightarrow> real" where
  "fl_value (Fin r) = r"
| "fl_value v = 0"

fun sign_neg :: "fl \<Rightarrow> bool" where
  "sign_neg (Fin r) = (r < 0)"
| "sign_neg NegZero = True"
| "sign_neg NInf = True"
| "sign_neg v = False"

fun is_inf :: "fl \<Rightarrow> bool" where
  "is_inf PInf = True"
| "is_inf NInf = True"
| "is_inf v = False"

fun is_zero :: "fl \<Rightarrow> bool" where
  "is_zero (Fin r) = (r = 0)"
| "is_zero NegZero = True"
| "is_zero v = False"

text \<open>
  A floating-point format is what it does to the exact result of an operation:
  \<open>rnd\<close> takes a nonzero real to the format's value for it (a finite number, a zero
  when it underflows, an infinity when it overflows), and \<open>rsqrt_pos\<close> is the
  library's reciprocal square root at a positive finite element. The formats of torch's
  element types are a parameter \<open>fm\<close> of everything below that computes.
\<close>

record format =
  rnd :: "real \<Rightarrow> fl"
  rsqrt_pos :: "real \<Rightarrow> fl"

text \<open>Conversion of a value into a format: only a nonzero finite number is rounded.\<close>

definition convert :: "format \<Rightarrow> fl \<Rightarrow> fl" where
  "convert f v = (case v of Fin r \<Rightarrow> if r = 0 then Fin 0 else rnd f r | _ \<Rightarrow> v)"

text \<open>
  Multiplication, addition, negation, subtraction and reciprocal square root with the
  special cases of IEEE 754 in its default rounding mode: NaN propagates,
  \<open>inf * 0\<close> and \<open>inf - inf\<close> are NaN, an exact zero product has the sign of its
  factors, an exact zero sum is \<open>-0\<close> only when both terms are, and
  \<open>rsqrt\<close> is \<open>inf\<close> at \<open>+0\<close>, \<open>-inf\<close> at \<open>-0\<close>, NaN below zero and 0 at
  \<open>inf\<close>.
\<close>

definition fmul :: "format \<Rightarrow> fl \<Rightarrow> fl \<Rightarrow> fl" where
  "fmul f a b =
     (if a = NaN \<or> b = NaN then NaN
      else if (is_inf a \<and> is_zero b) \<or> (is_zero a \<and> is_inf b) then NaN
      else if is_inf a \<or> is_inf b then (if sign_neg a \<noteq> sign_neg b then NInf else PInf)
      else if fl_value a * fl_value b = 0
        then (if sign_neg a \<noteq> sign_neg b then NegZero else Fin 0)
      else rnd f (fl_value a * fl_value b))"

definition fadd :: "format \<Rightarrow> fl \<Rightarrow> fl \<Rightarrow> fl" where
  "fadd f a b =
     (if a = NaN \<or> b = NaN then NaN
      else if (a = PInf \<and> b = NInf) \<or> (a = NInf \<and> b = PInf) then NaN
      else if is_inf a then a
      else if is_inf b then b
      else if fl_value a + fl_value b = 0
        then (if a = NegZero \<and> b = NegZero then NegZero else Fin 0)
      else rnd f (fl_value a + fl_value b))"

fun fneg :: "fl \<Rightarrow> fl" where
  "fneg (Fin r) = (if r = 0 then NegZero else Fin (- r))"
| "fneg NegZero = Fin 0"
| "fneg PInf = NInf"
| "fneg NInf = PInf"
| "fneg NaN = NaN"

definition fsub :: "format \<Rightarrow> fl \<Rightarrow> fl \<Rightarrow> fl" where
  "fsub f a b = fadd f a (fneg b)"

definition frsqrt :: "format \<Rightarrow> fl \<Rightarrow> fl" where
  "frsqrt f v =
     (case v of
        Fin r \<Rightarrow> if r < 0 then NaN else if r = 0 then PInf else rsqrt_pos f r
      | NegZero \<Rightarrow> NInf
      | PInf \<Rightarrow> Fin 0
      | NInf \<Rightarrow> NaN
      | NaN \<Rightarrow> NaN)"

text \<open>
  Two families of formats. In \<open>exact\<close> nothing is rounded and nothing overflows:
  arithmetic on the reals. \<open>torch_formats\<close> are the binary formats of IEEE 754 that
  torch's floating types are, with round to nearest, ties to even: \<open>p\<close> bits of
  precision and exponents from \<open>emin\<close> to \<open>emax\<close>; the reciprocal square root is
  \<open>1 / sqrt(x)\<close> with both operations rounded, as on the CPU. The formats of the
  floating types are the only ones consulted: every operation of \<open>forward\<close> has a
  float32 buffer as an operand.
\<close>

definition exact_format :: format where
  "exact_format = \<lparr>rnd = Fin, rsqrt_pos = (\<lambda>v. Fin (1 / sqrt v))\<rparr>"

definition exact :: "dtype \<Rightarrow> format" where
  "exact d = exact_format"

definition round_half_even :: "real \<Rightarrow> int" where
  "round_half_even q =
     (let f = \<lfloor>q\<rfloor>
      in if q - of_int f < 1 / 2 then f
         else if 1 / 2 < q - of_int f then f + 1
         else if even f then f else f + 1)"

definition ieee_round :: "nat \<Rightarrow> int \<Rightarrow> int \<Rightarrow> real \<Rightarrow> fl" where
  "ieee_round p emin emax r =
     (let e = max \<lfloor>log 2 \<bar>r\<bar>\<rfloor> emin;
          u = 2 powr (of_int e - (real p - 1));
          m = of_int (round_half_even (r / u)) * u
      in if r = 0 then Fin 0
         else if 2 powr (of_int emax + 1) \<le> \<bar>m\<bar> then (if 0 < r then PInf else NInf)
         else if m = 0 then (if 0 < r then Fin 0 else NegZero)
         else Fin m)"

definition ieee_format :: "nat \<Rightarrow> int \<Rightarrow> int \<Rightarrow> format" where
  "ieee_format p emin emax =
     \<lparr>rnd = ieee_round p emin emax,
      rsqrt_pos = (\<lambda>v. case ieee_round p emin emax (sqrt v) of
                          Fin s \<Rightarrow> ieee_round p emin emax (1 / s)
                        | z \<Rightarrow> z)\<rparr>"

fun torch_formats :: "dtype \<Rightarrow> format" where
  "torch_formats Float16 = ieee_format 11 (- 14) 15"
| "torch_formats Float64 = ieee_format 53 (- 1022) 1023"
| "torch_formats d = ieee_format 24 (- 126) 127"

text \<open>
  A torch tensor: its shape, its element type and its elements, read by a full index
  (one position per dimension). \<open>elem\<close> means something only at indices inside
  \<open>shape\<close>.
\<close>

record tensor =
  shape :: "nat list"
  dtype :: dtype
  elem :: "nat list \<Rightarrow> fl"

text \<open>\<^verbatim>\<open>t.shape[-2:]\<close>: the last two dimensions (fewer when the tensor has fewer).\<close>

definition last2 :: "'a list \<Rightarrow> 'a list" where
  "last2 s = drop (length s - 2) s"

text \<open>Type promotion of a binary operation between the element types above.\<close>

fun dtype_rank :: "dtype \<Rightarrow> nat" where
  "dtype_rank Bool = 0"
| "dtype_rank Int64 = 1"
| "dtype_rank Float16 = 2"
| "dtype_rank Float32 = 3"
| "dtype_rank Float64 = 4"

definition promote_types :: "dtype \<Rightarrow> dtype \<Rightarrow> dtype" where
  "promote_types a b = (if dtype_rank a \<le> dtype_rank b then b else a)"

text \<open>
  Broadcasting of two shapes, aligned at the last dimension: equal sizes stay, a size 1
  stretches to the other, anything else raises. \<open>broadcast_rev\<close> walks the reversed
  shapes.
\<close>

fun broadcast_rev :: "nat list \<Rightarrow> nat list \<Rightarrow> error + nat list" where
  "broadcast_rev [] bs = Inr bs"
| "broadcast_rev (a # as) [] = Inr (a # as)"
| "broadcast_rev (a # as) (b # bs) =
     (if a = b \<or> b = 1 then
        (case broadcast_rev as bs of Inl e \<Rightarrow> Inl e | Inr s \<Rightarrow> Inr (a # s))
      else if a = 1 then
        (case broadcast_rev as bs of Inl e \<Rightarrow> Inl e | Inr s \<Rightarrow> Inr (b # s))
      else Inl RuntimeError)"

definition broadcast_shapes :: "nat list \<Rightarrow> nat list \<Rightarrow> error + nat list" where
  "broadcast_shapes a b =
     (case broadcast_rev (rev a) (rev b) of Inl e \<Rightarrow> Inl e | Inr s \<Rightarrow> Inr (rev s))"

text \<open>
  The index at which an operand of shape \<open>s\<close> is read for the index \<open>i\<close> of the
  broadcast result: the leading dimensions the operand lacks are dropped, and a
  dimension of size 1 is always read at 0.
\<close>

definition bidx :: "nat list \<Rightarrow> nat list \<Rightarrow> nat list" where
  "bidx s i = map2 (\<lambda>d k. if d = 1 then 0 else k) s (drop (length i - length s) i)"

text \<open>
  An elementwise binary operation: the result has the broadcast shape and the promoted
  element type \<open>d\<close>; an operand of another element type is converted to \<open>d\<close> first,
  and the operation is that of the format of \<open>d\<close>.
\<close>

definition promote_value :: "(dtype \<Rightarrow> format) \<Rightarrow> dtype \<Rightarrow> dtype \<Rightarrow> fl \<Rightarrow> fl" where
  "promote_value fm d d' v = (if d = d' then v else convert (fm d') v)"

definition tbin ::
  "(dtype \<Rightarrow> format) \<Rightarrow> (format \<Rightarrow> fl \<Rightarrow> fl \<Rightarrow> fl) \<Rightarrow> tensor \<Rightarrow> tensor \<Rightarrow> error + tensor" where
  "tbin fm f a b =
     (case broadcast_shapes (shape a) (shape b) of
        Inl e \<Rightarrow> Inl e
      | Inr s \<Rightarrow>
          (let d = promote_types (dtype a) (dtype b)
           in Inr \<lparr>shape = s, dtype = d,
                   elem = (\<lambda>i. f (fm d)
                             (promote_value fm (dtype a) d (elem a (bidx (shape a) i)))
                             (promote_value fm (dtype b) d (elem b (bidx (shape b) i))))\<rparr>))"

definition tmul :: "(dtype \<Rightarrow> format) \<Rightarrow> tensor \<Rightarrow> tensor \<Rightarrow> error + tensor" where
  "tmul fm = tbin fm fmul"

definition tadd :: "(dtype \<Rightarrow> format) \<Rightarrow> tensor \<Rightarrow> tensor \<Rightarrow> error + tensor" where
  "tadd fm = tbin fm fadd"

definition tsub :: "(dtype \<Rightarrow> format) \<Rightarrow> tensor \<Rightarrow> tensor \<Rightarrow> error + tensor" where
  "tsub fm = tbin fm fsub"

text \<open>
  \<^verbatim>\<open>t + eps\<close> with a Python number (a double): shape and element type stay, the
  number is converted to the tensor's element type.
\<close>

definition tadd_scalar :: "(dtype \<Rightarrow> format) \<Rightarrow> tensor \<Rightarrow> fl \<Rightarrow> tensor" where
  "tadd_scalar fm t c =
     t\<lparr>elem := (\<lambda>i. fadd (fm (dtype t)) (elem t i) (convert (fm (dtype t)) c))\<rparr>"

text \<open>\<^verbatim>\<open>t.rsqrt()\<close>, the reciprocal of the square root of every element.\<close>

definition rsqrt :: "(dtype \<Rightarrow> format) \<Rightarrow> tensor \<Rightarrow> tensor" where
  "rsqrt fm t = t\<lparr>elem := (\<lambda>i. frsqrt (fm (dtype t)) (elem t i))\<rparr>"

section \<open>FrozenBatchNorm2d\<close>

text \<open>
  The module's four buffers, registered as one-dimensional float32 tensors of length
  \<open>n\<close>, and \<open>eps\<close>, a Python float.
\<close>

record FrozenBatchNorm2d =
  weight :: "fl list"
  bias :: "fl list"
  running_mean :: "fl list"
  running_var :: "fl list"
  eps :: fl

text \<open>\<^verbatim>\<open>__init__(n, eps=1e-5)\<close>: ones, zeros, zeros, ones.\<close>

definition FrozenBatchNorm2d_init :: "nat \<Rightarrow> fl \<Rightarrow> FrozenBatchNorm2d" where
  "FrozenBatchNorm2d_init n e =
     \<lparr>weight = replicate n (Fin 1), bias = replicate n (Fin 0),
      running_mean = replicate n (Fin 0), running_var = replicate n (Fin 1), eps = e\<rparr>"

text \<open>\<^verbatim>\<open>buf.reshape(1, -1, 1, 1)\<close> of a one-dimensional buffer.\<close>

definition reshape_1n11 :: "fl list \<Rightarrow> tensor" where
  "reshape_1n11 v = \<lparr>shape = [1, length v, 1, 1], dtype = Float32, elem = (\<lambda>i. v ! (i ! 1))\<rparr>"

definition FrozenBatchNorm2d_forward ::
  "(dtype \<Rightarrow> format) \<Rightarrow> FrozenBatchNorm2d \<Rightarrow> tensor \<Rightarrow> error + tensor" where
  "FrozenBatchNorm2d_forward fm self x =
     (let w = reshape_1n11 (weight self);
          b = reshape_1n11 (bias self);
          rv = reshape_1n11 (running_var self);
          rm = reshape_1n11 (running_mean self);
          eps' = eps self
      in case tmul fm w (rsqrt fm (tadd_scalar fm rv eps')) of
           Inl e \<Rightarrow> Inl e
         | Inr scale \<Rightarrow>
             (case tmul fm rm scale of
                Inl e \<Rightarrow> Inl e
              | Inr rms \<Rightarrow>
                  (case tsub fm b rms of
                     Inl e \<Rightarrow> Inl e
                   | Inr bias' \<Rightarrow>
                       (case tmul fm x scale of
                          Inl e \<Rightarrow> Inl e
                        | Inr xs \<Rightarrow> tadd fm xs bias'))))"

text \<open>
  A Python dict with string keys, in insertion order: \<open>k in d\<close>, \<open>del d[k]\<close>,
  \<open>d[k] = v\<close> (an existing key keeps its place), \<open>d[k]\<close> is \<open>map_of d k\<close>.
\<close>

type_synonym 'v dict = "(string \<times> 'v) list"

definition dict_contains :: "string \<Rightarrow> 'v dict \<Rightarrow> bool" where
  "dict_contains k d = (k \<in> set (map fst d))"

definition dict_del :: "string \<Rightarrow> 'v dict \<Rightarrow> 'v dict" where
  "dict_del k d = filter (\<lambda>kv. fst kv \<noteq> k) d"

fun dict_set :: "string \<Rightarrow> 'v \<Rightarrow> 'v dict \<Rightarrow> 'v dict" where
  "dict_set k v [] = [(k, v)]"
| "dict_set k v ((k', v') # d) = (if k' = k then (k, v) # d else (k', v') # dict_set k v d)"

text \<open>
  \<^verbatim>\<open>torch.nn.Module._load_from_state_dict\<close>, which the override below calls, for a
  module with the four persistent buffers above, no parameters and no submodules.
  A buffer whose key is in the state dict is copied from it when the shapes agree and
  reported in \<open>error_msgs\<close> when they do not; a buffer whose key is absent is
  reported in \<open>missing_keys\<close> under \<open>strict\<close>; under \<open>strict\<close> every key of the
  state dict that starts with the prefix and names none of the buffers is reported in
  \<open>unexpected_keys\<close>. The three report lists are the caller's, appended to.
\<close>

datatype load_msg = SizeMismatch string

record load_state =
  module :: FrozenBatchNorm2d
  state_dict :: "tensor dict"
  missing_keys :: "string list"
  unexpected_keys :: "string list"
  error_msgs :: "load_msg list"

definition startswith :: "string \<Rightarrow> string \<Rightarrow> bool" where
  "startswith key p = (take (length p) key = p)"

definition input_name :: "string \<Rightarrow> string \<Rightarrow> string" where
  "input_name p key = takeWhile (\<lambda>c. c \<noteq> CHR ''.'') (drop (length p) key)"

definition local_state :: "string list" where
  "local_state = [''weight'', ''bias'', ''running_mean'', ''running_var'']"

definition load_buffer ::
  "tensor dict \<Rightarrow> string \<Rightarrow> bool \<Rightarrow> string \<Rightarrow> fl list
     \<Rightarrow> fl list \<times> string list \<times> load_msg list" where
  "load_buffer sd p strict name param =
     (let key = p @ name
      in case map_of sd key of
           Some input_param \<Rightarrow>
             if shape input_param \<noteq> [length param] then (param, [], [SizeMismatch key])
             else (map (\<lambda>i. elem input_param [i]) [0..<length param], [], [])
         | None \<Rightarrow> (param, if strict then [key] else [], []))"

definition Module_load_from_state_dict ::
  "FrozenBatchNorm2d \<Rightarrow> tensor dict \<Rightarrow> string \<Rightarrow> bool \<Rightarrow> string list \<Rightarrow> string list
     \<Rightarrow> load_msg list \<Rightarrow> load_state" where
  "Module_load_from_state_dict self sd p strict missing unexpected errors =
     (let (w, mw, ew) = load_buffer sd p strict ''weight'' (weight self);
          (b, mb, eb) = load_buffer sd p strict ''bias'' (bias self);
          (rm, mrm, erm) = load_buffer sd p strict ''running_mean'' (running_mean self);
          (rv, mrv, erv) = load_buffer sd p strict ''running_var'' (running_var self)
      in \<lparr>module = self\<lparr>weight := w, bias := b, running_mean := rm, running_var := rv\<rparr>,
          state_dict = sd,
          missing_keys = missing @ mw @ mb @ mrm @ mrv,
          unexpected_keys = unexpected @
            (if strict
             then filter (\<lambda>key. startswith key p \<and> input_name p key \<notin> set local_state)
                    (map fst sd)
             else []),
          error_msgs = errors @ ew @ eb @ erm @ erv\<rparr>)"

text \<open>
  \<^verbatim>\<open>FrozenBatchNorm2d._load_from_state_dict\<close>: the key
  \<open>prefix + 'num_batches_tracked'\<close> is deleted from the caller's state dict, then the
  inherited loader runs on it. The state dict is an object shared with the caller: the
  result carries it as it is after the call.
\<close>

definition load_from_state_dict ::
  "FrozenBatchNorm2d \<Rightarrow> tensor dict \<Rightarrow> string \<Rightarrow> bool \<Rightarrow> string list \<Rightarrow> string list
     \<Rightarrow> load_msg list \<Rightarrow> load_state" where
  "load_from_state_dict self sd p strict missing unexpected errors =
     (let num_batches_tracked_key = p @ ''num_batches_tracked'';
          sd' = (if dict_contains num_batches_tracked_key sd
                 then dict_del num_batches_tracked_key sd else sd)
      in Module_load_from_state_dict self sd' p strict missing unexpected errors)"

section \<open>Masks\<close>

text \<open>\<^verbatim>\<open>t[None]\<close>: a new first dimension of size 1.\<close>

definition unsqueeze0 :: "tensor \<Rightarrow> tensor" where
  "unsqueeze0 t = t\<lparr>shape := 1 # shape t, elem := (\<lambda>i. elem t (tl i))\<rparr>"

text \<open>
  \<^verbatim>\<open>t.to(d)\<close> and \<^verbatim>\<open>t.float()\<close>: to bool, every element that is not a zero is
  true (1); to an integer type a finite value is truncated towards zero (torch leaves
  the conversion of the others undefined; the smallest integer is what the CPU gives);
  to a floating type the value stays (rounding is not modelled).
\<close>

fun cast_value :: "dtype \<Rightarrow> fl \<Rightarrow> fl" where
  "cast_value Bool v = (if is_zero v then Fin 0 else Fin 1)"
| "cast_value Int64 v =
     (if is_finite v
      then (if 0 \<le> fl_value v then Fin (of_int \<lfloor>fl_value v\<rfloor>)
            else Fin (of_int \<lceil>fl_value v\<rceil>))
      else Fin (- (2 ^ 63)))"
| "cast_value d v = v"

definition to_dtype :: "dtype \<Rightarrow> tensor \<Rightarrow> tensor" where
  "to_dtype d t = t\<lparr>dtype := d, elem := (\<lambda>i. cast_value d (elem t i))\<rparr>"

text \<open>\<^verbatim>\<open>t[0]\<close>: the first slice; there is none in a tensor without dimensions or of first size 0.\<close>

definition index0 :: "tensor \<Rightarrow> error + tensor" where
  "index0 t =
     (case shape t of
        [] \<Rightarrow> Inl IndexError
      | n # s \<Rightarrow> if n = 0 then Inl IndexError
                 else Inr (t\<lparr>shape := s, elem := (\<lambda>i. elem t (0 # i))\<rparr>))"

text \<open>
  \<^verbatim>\<open>F.interpolate(input, size=sz)\<close> in its default mode, nearest: \<open>input\<close> has a
  batch dimension, a channel dimension and one to three spatial dimensions, \<open>sz\<close>
  gives the new size of each spatial dimension, and the result has exactly these
  spatial sizes. The element at a position is the input's at the nearest source
  position, \<open>\<lfloor>dst * in / out\<rfloor>\<close> capped at \<open>in - 1\<close>.
\<close>

definition nearest :: "nat \<Rightarrow> nat \<Rightarrow> nat \<Rightarrow> nat" where
  "nearest n_in n_out dst = min (dst * n_in div n_out) (n_in - 1)"

definition interpolate :: "tensor \<Rightarrow> nat list \<Rightarrow> error + tensor" where
  "interpolate input sz =
     (let dims = length (shape input)
      in if length sz \<noteq> dims - 2 then Inl ValueError
         else if dims < 3 \<or> 5 < dims then Inl NotImplementedError
         else if 0 \<in> set (drop 2 (shape input)) \<or> 0 \<in> set sz then Inl RuntimeError
         else Inr (input\<lparr>shape := take 2 (shape input) @ sz,
                          elem := (\<lambda>i. elem input (take 2 i @
                                     map (\<lambda>(n_in, n_out, dst). nearest n_in n_out dst)
                                       (zip (drop 2 (shape input)) (zip sz (drop 2 i)))))\<rparr>))"

text \<open>
  The expression that every level's mask is computed by:
  \<^verbatim>\<open>F.interpolate(m[None].float(), size=x.shape[-2:]).to(torch.bool)[0]\<close>.
\<close>

definition interpolate_mask :: "tensor \<Rightarrow> tensor \<Rightarrow> error + tensor" where
  "interpolate_mask m x =
     (case interpolate (to_dtype Float32 (unsqueeze0 m)) (last2 (shape x)) of
        Inl e \<Rightarrow> Inl e
      | Inr t \<Rightarrow> index0 (to_dtype Bool t))"

section \<open>BackboneBase and Backbone\<close>

text \<open>
  Modelled from the spec: \<^verbatim>\<open>util.misc.NestedTensor\<close> is imported, not defined, by
  the source file. The spec's MaskedTensor is the pair of a tensor and its mask; the
  source reads the two as \<open>.tensors\<close> and \<open>.mask\<close>, and the mask may be \<open>None\<close>.
\<close>

record NestedTensor =
  tensors :: tensor
  mask_nt :: "tensor option"

text \<open>
  The torchvision ResNet that \<open>Backbone\<close> builds, as far as the source uses it: its
  stages in the order of \<open>named_children\<close>, each a function on tensors that may
  raise. The stages after \<open>layer4\<close> (\<open>avgpool\<close>, \<open>fc\<close>) are never run:
  \<open>IntermediateLayerGetter\<close> keeps the children up to the last returned layer, which
  is \<open>layer4\<close> in both configurations.
\<close>

record trunk =
  conv1 :: "tensor \<Rightarrow> error + tensor"
  bn1 :: "tensor \<Rightarrow> error + tensor"
  relu :: "tensor \<Rightarrow> error + tensor"
  maxpool :: "tensor \<Rightarrow> error + tensor"
  layer1 :: "tensor \<Rightarrow> error + tensor"
  layer2 :: "tensor \<Rightarrow> error + tensor"
  layer3 :: "tensor \<Rightarrow> error + tensor"
  layer4 :: "tensor \<Rightarrow> error + tensor"

definition named_children :: "trunk \<Rightarrow> (string \<times> (tensor \<Rightarrow> error + tensor)) list" where
  "named_children b =
     [(''conv1'', conv1 b), (''bn1'', bn1 b), (''relu'', relu b), (''maxpool'', maxpool b),
      (''layer1'', layer1 b), (''layer2'', layer2 b), (''layer3'', layer3 b),
      (''layer4'', layer4 b)]"

text \<open>
  \<^verbatim>\<open>IntermediateLayerGetter.forward\<close>: the modules run in order, and the output of a
  module named in \<open>return_layers\<close> is stored under the name given there.
\<close>

fun getter_forward ::
  "(string \<times> (tensor \<Rightarrow> error + tensor)) list \<Rightarrow> string dict \<Rightarrow> tensor \<Rightarrow> tensor dict
     \<Rightarrow> error + tensor dict" where
  "getter_forward [] rl x out = Inr out"
| "getter_forward ((name, f) # ms) rl x out =
     (case f x of
        Inl e \<Rightarrow> Inl e
      | Inr x' \<Rightarrow>
          getter_forward ms rl x'
            (case map_of rl name of None \<Rightarrow> out | Some out_name \<Rightarrow> dict_set out_name x' out))"

record BackboneBase =
  backbone :: trunk
  return_layers :: "string dict"
  strides :: "int list"
  num_channels :: "int list"

text \<open>
  \<open>BackboneBase.__init__\<close>. Its argument \<open>args\<close> is only stored, and
  \<open>train_backbone\<close> is read by commented-out code only. \<open>self.body\<close> is the
  \<open>IntermediateLayerGetter\<close> of the backbone and \<open>return_layers\<close>.
\<close>

definition BackboneBase_init :: "trunk \<Rightarrow> bool \<Rightarrow> bool \<Rightarrow> BackboneBase" where
  "BackboneBase_init backbone' train_backbone return_interm_layers =
     (if return_interm_layers
      then \<lparr>backbone = backbone',
            return_layers = [(''layer2'', ''0''), (''layer3'', ''1''), (''layer4'', ''2'')],
            strides = [8, 16, 32], num_channels = [512, 1024, 2048]\<rparr>
      else \<lparr>backbone = backbone', return_layers = [(''layer4'', ''0'')],
            strides = [32], num_channels = [2048]\<rparr>)"

definition body :: "BackboneBase \<Rightarrow> tensor \<Rightarrow> error + tensor dict" where
  "body self x = getter_forward (named_children (backbone self)) (return_layers self) x []"

text \<open>
  The two statements that \<open>support_encoding_net\<close> repeats for every level it returns:
  the mask \<open>m\<close> is interpolated to the activation \<open>x\<close> and the pair is stored under
  \<open>k\<close>. \<open>m[None]\<close> raises TypeError when \<open>m\<close> is \<open>None\<close>.
\<close>

definition add_level ::
  "tensor option \<Rightarrow> tensor \<Rightarrow> string \<Rightarrow> NestedTensor dict \<Rightarrow> error + NestedTensor dict" where
  "add_level m x k out =
     (case m of
        None \<Rightarrow> Inl TypeError
      | Some m' \<Rightarrow>
          (case interpolate_mask m' x of
             Inl e \<Rightarrow> Inl e
           | Inr mask' \<Rightarrow> Inr (dict_set k \<lparr>tensors = x, mask_nt = Some mask'\<rparr> out)))"

definition bind :: "error + 'a \<Rightarrow> ('a \<Rightarrow> error + 'b) \<Rightarrow> error + 'b" where
  "bind r f = (case r of Inl e \<Rightarrow> Inl e | Inr v \<Rightarrow> f v)"

definition support_encoding_net ::
  "BackboneBase \<Rightarrow> NestedTensor \<Rightarrow> bool \<Rightarrow> error + NestedTensor dict" where
  "support_encoding_net self x return_interm_layers =
     (let m = mask_nt x
      in bind (conv1 (backbone self) (tensors x)) (\<lambda>x.
         bind (bn1 (backbone self) x) (\<lambda>x.
         bind (relu (backbone self) x) (\<lambda>x.
         bind (maxpool (backbone self) x) (\<lambda>x.
         bind (layer1 (backbone self) x) (\<lambda>x.
         bind (layer2 (backbone self) x) (\<lambda>x.
         bind (if return_interm_layers then add_level m x ''0'' [] else Inr []) (\<lambda>out.
         bind (layer3 (backbone self) x) (\<lambda>x.
         bind (if return_interm_layers then add_level m x ''1'' out else Inr out) (\<lambda>out.
         bind (layer4 (backbone self) x) (\<lambda>x.
         bind (if return_interm_layers then add_level m x ''2'' out else Inr out) (\<lambda>out.
         if return_interm_layers then Inr out
         else add_level m x ''0'' out))))))))))))"

text \<open>
  The loop of \<open>BackboneBase.forward\<close> over \<open>xs.items()\<close>; the assertion is the first
  statement of its body.
\<close>

fun forward_loop ::
  "tensor option \<Rightarrow> tensor dict \<Rightarrow> NestedTensor dict \<Rightarrow> error + NestedTensor dict" where
  "forward_loop m [] out = Inr out"
| "forward_loop m ((name, x) # xs) out =
     (case m of
        None \<Rightarrow> Inl AssertionError
      | Some m' \<Rightarrow>
          (case interpolate_mask m' x of
             Inl e \<Rightarrow> Inl e
           | Inr mask' \<Rightarrow>
               forward_loop m xs (dict_set name \<lparr>tensors = x, mask_nt = Some mask'\<rparr> out)))"

definition BackboneBase_forward :: "BackboneBase \<Rightarrow> NestedTensor \<Rightarrow> error + NestedTensor dict" where
  "BackboneBase_forward self tensor_list =
     (case body self (tensors tensor_list) of
        Inl e \<Rightarrow> Inl e
      | Inr xs \<Rightarrow> forward_loop (mask_nt tensor_list) xs [])"

text \<open>
  \<open>Backbone.__init__\<close>. \<open>resnet\<close> stands for
  \<^verbatim>\<open>getattr(torchvision.models, name)(replace_stride_with_dilation=..., pretrained=...)\<close>,
  which may raise, and \<open>is_main_process\<close> for the value of \<^verbatim>\<open>util.misc.is_main_process()\<close>;
  of \<open>args\<close> only \<open>dilation\<close> is read. \<open>requires_grad\<close> is not part of the model.
\<close>

record args =
  dilation :: bool

definition Backbone_init ::
  "(string \<Rightarrow> bool list \<Rightarrow> bool \<Rightarrow> error + trunk) \<Rightarrow> bool \<Rightarrow> string \<Rightarrow> bool \<Rightarrow> bool \<Rightarrow> args
     \<Rightarrow> error + BackboneBase" where
  "Backbone_init resnet is_main_process name train_backbone return_interm_layers args' =
     (let dilation' = dilation args'
      in case resnet name [False, False, dilation'] is_main_process of
           Inl e \<Rightarrow> Inl e
         | Inr backbone' \<Rightarrow>
             if name \<in> set [''resnet18'', ''resnet34''] then Inl AssertionError
             else
               (let self = BackboneBase_init backbone' train_backbone return_interm_layers
                in Inr (if dilation'
                        then self\<lparr>strides := (strides self)
                               [length (strides self) - 1 := last (strides self) div 2]\<rparr>
                        else self)))"

section \<open>Joiner\<close>

text \<open>
  The \<open>nn.Sequential\<close> of the backbone (\<open>self[0]\<close>) and the position embedding
  (\<open>self[1]\<close>). The position embedding is built by \<^verbatim>\<open>build_position_encoding\<close> of
  another file; it is a parameter here, a function from a level to its encoding.
\<close>

record Joiner =
  module0 :: BackboneBase
  module1 :: "NestedTensor \<Rightarrow> tensor"
  joiner_strides :: "int list"
  joiner_num_channels :: "int list"

definition Joiner_init :: "BackboneBase \<Rightarrow> (NestedTensor \<Rightarrow> tensor) \<Rightarrow> Joiner" where
  "Joiner_init backbone' position_embedding =
     \<lparr>module0 = backbone', module1 = position_embedding,
      joiner_strides = strides backbone', joiner_num_channels = num_channels backbone'\<rparr>"

text \<open>
  What both entry points do with the backbone's dict: the values in the order of
  \<^verbatim>\<open>sorted(xs.items())\<close> (the keys of a dict are distinct, so the order is that of the
  keys), then \<^verbatim>\<open>self[1](x).to(x.tensors.dtype)\<close> for each.
\<close>

definition compose_levels ::
  "Joiner \<Rightarrow> NestedTensor dict \<Rightarrow> NestedTensor list \<times> tensor list" where
  "compose_levels self xs =
     (let out = map snd (sort_key fst xs);
          pos = map (\<lambda>x. to_dtype (dtype (tensors x)) (module1 self x)) out
      in (out, pos))"

definition Joiner_forward ::
  "Joiner \<Rightarrow> NestedTensor \<Rightarrow> error + NestedTensor list \<times> tensor list" where
  "Joiner_forward self tensor_list =
     (case BackboneBase_forward (module0 self) tensor_list of
        Inl e \<Rightarrow> Inl e
      | Inr xs \<Rightarrow> Inr (compose_levels self xs))"

definition Joiner_forward_supp_branch ::
  "Joiner \<Rightarrow> NestedTensor \<Rightarrow> bool \<Rightarrow> error + NestedTensor list \<times> tensor list" where
  "Joiner_forward_supp_branch self tensor_list return_interm_layers =
     (case support_encoding_net (module0 self) tensor_list return_interm_layers of
        Inl e \<Rightarrow> Inl e
      | Inr xs \<Rightarrow> Inr (compose_levels self xs))"

section \<open>The mask invariant\<close>

text \<open>\<^verbatim>\<open>mask.shape[-2:] == tensor.shape[-2:]\<close> for a level that has a mask.\<close>

definition mask_matches :: "NestedTensor \<Rightarrow> bool" where
  "mask_matches lv =
     (case mask_nt lv of
        None \<Rightarrow> False
      | Some mk \<Rightarrow> last2 (shape mk) = last2 (shape (tensors lv)))"

section \<open>Example inputs\<close>

text \<open>
  Concrete values on which the theorems are evaluated: a normalisation with two
  channels, a state dict of a checkpoint with the legacy counter, and a small trunk
  whose stages halve the spatial size where a ResNet does (stride 8, 16 and 32 at
  \<open>layer2\<close>, \<open>layer3\<close> and \<open>layer4\<close>).
\<close>

definition example_x :: tensor where
  "example_x = \<lparr>shape = [1, 2, 1, 1], dtype = Float32, elem = (\<lambda>i. Fin 3)\<rparr>"

definition example_bn :: FrozenBatchNorm2d where
  "example_bn =
     \<lparr>weight = [Fin 2, Fin 4], bias = [Fin 1, Fin 0], running_mean = [Fin 1, Fin 2],
      running_var = [Fin 0, Fin 3], eps = Fin 1\<rparr>"

definition vector :: "fl list \<Rightarrow> tensor" where
  "vector v = \<lparr>shape = [length v], dtype = Float32, elem = (\<lambda>i. v ! hd i)\<rparr>"

definition example_state_dict :: "tensor dict" where
  "example_state_dict =
     [(''bn1.weight'', vector [Fin 2, Fin 4]), (''bn1.bias'', vector [Fin 1, Fin 0]),
      (''bn1.num_batches_tracked'', \<lparr>shape = [], dtype = Int64, elem = (\<lambda>i. Fin 100)\<rparr>),
      (''bn1.running_mean'', vector [Fin 1, Fin 2]),
      (''bn1.running_var'', vector [Fin 0, Fin 3])]"

definition halve :: "tensor \<Rightarrow> error + tensor" where
  "halve t =
     Inr (t\<lparr>shape := take 2 (shape t) @ map (\<lambda>n. (n + 1) div 2) (drop 2 (shape t)),
            elem := (\<lambda>i. elem t (take 2 i @ map (\<lambda>k. 2 * k) (drop 2 i)))\<rparr>)"

definition example_trunk :: trunk where
  "example_trunk =
     \<lparr>conv1 = halve, bn1 = Inr, relu = Inr, maxpool = halve, layer1 = Inr, layer2 = halve,
      layer3 = halve, layer4 = halve\<rparr>"

definition example_resnet :: "string \<Rightarrow> bool list \<Rightarrow> bool \<Rightarrow> error + trunk" where
  "example_resnet name replace_stride_with_dilation pretrained = Inr example_trunk"

definition example_image :: tensor where
  "example_image = \<lparr>shape = [1, 3, 64, 64], dtype = Float32, elem = (\<lambda>i. Fin 1)\<rparr>"

definition example_mask :: tensor where
  "example_mask = \<lparr>shape = [1, 64, 64], dtype = Bool, elem = (\<lambda>i. Fin 0)\<rparr>"

definition example_input :: NestedTensor where
  "example_input = \<lparr>tensors = example_image, mask_nt = Some example_mask\<rparr>"

definition example_unmasked :: NestedTensor where
  "example_unmasked = \<lparr>tensors = example_image, mask_nt = None\<rparr>"

definition example_position :: "NestedTensor \<Rightarrow> tensor" where
  "example_position x = \<lparr>shape = shape (tensors x), dtype = Float64, elem = (\<lambda>i. Fin 0)\<rparr>"






section \<open>Properties of FrozenBatchNorm2d\<close>

lemma broadcast_same_1n11: "broadcast_shapes [1, C, 1, 1] [1, C, 1, 1] = Inr [1, C, 1, 1]"
  by (simp add: broadcast_shapes_def)

lemma broadcast_x_1n11: "broadcast_shapes [B, C, H, W] [1, C, 1, 1] = Inr [B, C, H, W]"
  by (simp add: broadcast_shapes_def)

lemma bidx_1n11: "c < C \<Longrightarrow> bidx [1, C, 1, 1] [n, c, h, w] = [0, c, 0, 0]"
  by (auto simp: bidx_def)

lemma bidx_x:
  "n < B \<Longrightarrow> c < C \<Longrightarrow> h < H \<Longrightarrow> w < W \<Longrightarrow> bidx [B, C, H, W] [n, c, h, w] = [n, c, h, w]"
  by (auto simp: bidx_def)

lemma promote_value_same: "promote_value fm d d v = v"
  by (simp add: promote_value_def)

lemma promote_types_idem: "promote_types d d = d"
  by (simp add: promote_types_def)

lemma promote_types_absorb:
  "promote_types (promote_types d Float32) Float32 = promote_types d Float32"
  by (simp add: promote_types_def)

lemma tbin_1n11:
  assumes "shape a = [1, C, 1, 1]" and "shape b = [1, C, 1, 1]"
    and "dtype a = Float32" and "dtype b = Float32"
  shows "\<exists>t. tbin fm f a b = Inr t \<and> shape t = [1, C, 1, 1] \<and> dtype t = Float32 \<and>
    (\<forall>n c h w. c < C \<longrightarrow>
       elem t [n, c, h, w] = f (fm Float32) (elem a [0, c, 0, 0]) (elem b [0, c, 0, 0]))"
  using assms broadcast_same_1n11 [of C] bidx_1n11 [of _ C]
  by (simp add: tbin_def Let_def promote_types_idem promote_value_same)

lemma tbin_x_1n11:
  assumes "shape a = [B, C, H, W]" and "shape b = [1, C, 1, 1]" and "dtype b = Float32"
  shows "\<exists>t. tbin fm f a b = Inr t \<and> shape t = [B, C, H, W] \<and>
    dtype t = promote_types (dtype a) Float32 \<and>
    (\<forall>n c h w. n < B \<longrightarrow> c < C \<longrightarrow> h < H \<longrightarrow> w < W \<longrightarrow>
       elem t [n, c, h, w] =
         f (fm (promote_types (dtype a) Float32))
           (promote_value fm (dtype a) (promote_types (dtype a) Float32) (elem a [n, c, h, w]))
           (promote_value fm Float32 (promote_types (dtype a) Float32) (elem b [0, c, 0, 0])))"
  using assms broadcast_x_1n11 [of B C H W] bidx_1n11 [of _ C] bidx_x [of _ B _ C _ H _ W]
  by (simp add: tbin_def Let_def)

lemma shape_reshape_1n11: "shape (reshape_1n11 v) = [1, length v, 1, 1]"
  by (simp add: reshape_1n11_def)

lemma dtype_reshape_1n11: "dtype (reshape_1n11 v) = Float32"
  by (simp add: reshape_1n11_def)

lemma elem_reshape_1n11: "elem (reshape_1n11 v) [n, c, h, w] = v ! c"
  by (simp add: reshape_1n11_def)

lemma forward_elements:
  assumes x: "shape x = [B, C, H, W]"
    and w: "length (weight self) = C" and b: "length (bias self) = C"
    and rm: "length (running_mean self) = C" and rv: "length (running_var self) = C"
  shows "\<exists>y. FrozenBatchNorm2d_forward fm self x = Inr y \<and> shape y = shape x \<and>
    (\<forall>n c h w. n < B \<longrightarrow> c < C \<longrightarrow> h < H \<longrightarrow> w < W \<longrightarrow>
       elem y [n, c, h, w] =
         (let f = fm Float32;
              d = promote_types (dtype x) Float32;
              scale = fmul f (weight self ! c)
                        (frsqrt f (fadd f (running_var self ! c) (convert f (eps self))));
              bias' = fsub f (bias self ! c) (fmul f (running_mean self ! c) scale)
          in fadd (fm d)
               (fmul (fm d) (promote_value fm (dtype x) d (elem x [n, c, h, w]))
                  (promote_value fm Float32 d scale))
               (promote_value fm Float32 d bias')))"
proof -
  let ?f = "fm Float32"
  let ?d = "promote_types (dtype x) Float32"
  let ?r = "rsqrt fm (tadd_scalar fm (reshape_1n11 (running_var self)) (eps self))"
  let ?scale = "\<lambda>c. fmul ?f (weight self ! c)
      (frsqrt ?f (fadd ?f (running_var self ! c) (convert ?f (eps self))))"
  let ?bias = "\<lambda>c. fsub ?f (bias self ! c) (fmul ?f (running_mean self ! c) (?scale c))"
  have sr: "shape ?r = [1, C, 1, 1]" "dtype ?r = Float32"
    by (simp_all add: rsqrt_def tadd_scalar_def shape_reshape_1n11 dtype_reshape_1n11 rv)
  have er: "elem ?r [n, c, h, w] =
      frsqrt ?f (fadd ?f (running_var self ! c) (convert ?f (eps self)))" for n c h w
    by (simp add: rsqrt_def tadd_scalar_def elem_reshape_1n11 dtype_reshape_1n11)
  obtain scale where scale: "tmul fm (reshape_1n11 (weight self)) ?r = Inr scale"
      "shape scale = [1, C, 1, 1]" "dtype scale = Float32"
      "\<And>n c h w. c < C \<Longrightarrow> elem scale [n, c, h, w] = ?scale c"
    using tbin_1n11 [of "reshape_1n11 (weight self)" C ?r fm fmul] sr w
    by (auto simp: tmul_def shape_reshape_1n11 dtype_reshape_1n11 elem_reshape_1n11 er)
  obtain rms where rms: "tmul fm (reshape_1n11 (running_mean self)) scale = Inr rms"
      "shape rms = [1, C, 1, 1]" "dtype rms = Float32"
      "\<And>n c h w. c < C \<Longrightarrow>
         elem rms [n, c, h, w] = fmul ?f (running_mean self ! c) (elem scale [0, c, 0, 0])"
    using tbin_1n11 [of "reshape_1n11 (running_mean self)" C scale fm fmul] scale(2,3) rm
    by (auto simp: tmul_def shape_reshape_1n11 dtype_reshape_1n11 elem_reshape_1n11)
  obtain bias' where bias': "tsub fm (reshape_1n11 (bias self)) rms = Inr bias'"
      "shape bias' = [1, C, 1, 1]" "dtype bias' = Float32"
      "\<And>n c h w. c < C \<Longrightarrow>
         elem bias' [n, c, h, w] = fsub ?f (bias self ! c) (elem rms [0, c, 0, 0])"
    using tbin_1n11 [of "reshape_1n11 (bias self)" C rms fm fsub] rms(2,3) b
    by (auto simp: tsub_def shape_reshape_1n11 dtype_reshape_1n11 elem_reshape_1n11)
  obtain xs where xs: "tmul fm x scale = Inr xs" "shape xs = [B, C, H, W]"
      "dtype xs = ?d"
      "\<And>n c h w. n < B \<Longrightarrow> c < C \<Longrightarrow> h < H \<Longrightarrow> w < W \<Longrightarrow>
         elem xs [n, c, h, w] =
           fmul (fm ?d) (promote_value fm (dtype x) ?d (elem x [n, c, h, w]))
             (promote_value fm Float32 ?d (elem scale [0, c, 0, 0]))"
    using tbin_x_1n11 [of x B C H W scale fm fmul] x scale(2,3)
    by (auto simp: tmul_def)
  obtain y where y: "tadd fm xs bias' = Inr y" "shape y = [B, C, H, W]"
      "\<And>n c h w. n < B \<Longrightarrow> c < C \<Longrightarrow> h < H \<Longrightarrow> w < W \<Longrightarrow>
         elem y [n, c, h, w] =
           fadd (fm ?d) (elem xs [n, c, h, w])
             (promote_value fm Float32 ?d (elem bias' [0, c, 0, 0]))"
    using tbin_x_1n11 [of xs B C H W bias' fm fadd] xs(2,3) bias'(2,3)
    by (auto simp: tadd_def promote_types_absorb promote_value_same)
  have "FrozenBatchNorm2d_forward fm self x = Inr y"
    by (simp add: FrozenBatchNorm2d_forward_def Let_def scale(1) rms(1) bias'(1) xs(1) y(1))
  moreover have "shape y = shape x"
    by (simp add: x y(2))
  moreover have "elem y [n, c, h, w] =
         (let f = fm Float32;
              d = promote_types (dtype x) Float32;
              scale = fmul f (weight self ! c)
                        (frsqrt f (fadd f (running_var self ! c) (convert f (eps self))));
              bias' = fsub f (bias self ! c) (fmul f (running_mean self ! c) scale)
          in fadd (fm d)
               (fmul (fm d) (promote_value fm (dtype x) d (elem x [n, c, h, w]))
                  (promote_value fm Float32 d scale))
               (promote_value fm Float32 d bias'))"
    if "n < B" "c < C" "h < H" "w < W" for n c h w
    using that by (simp add: Let_def y(3) xs(4) bias'(4) rms(4) scale(4))
  ultimately show ?thesis by blast
qed


subsection \<open>finiteness\<close>

lemma finite_cases: "is_finite a \<Longrightarrow> (\<exists>r. a = Fin r) \<or> a = NegZero"
  by (cases a) simp_all









subsection \<open>exact arithmetic\<close>

lemma exact_rnd: "rnd (exact d) r = Fin r"
  by (simp add: exact_def exact_format_def)

lemma exact_rsqrt_pos: "rsqrt_pos (exact d) v = Fin (1 / sqrt v)"
  by (simp add: exact_def exact_format_def)

lemma val_fmul:
  assumes "is_finite a" and "is_finite b"
  shows "is_finite (fmul (exact d) a b) \<and> fl_value (fmul (exact d) a b) = fl_value a * fl_value b"
  using assms finite_cases [of a] finite_cases [of b] by (auto simp: fmul_def exact_rnd)

lemma val_fadd:
  assumes "is_finite a" and "is_finite b"
  shows "is_finite (fadd (exact d) a b) \<and> fl_value (fadd (exact d) a b) = fl_value a + fl_value b"
  using assms finite_cases [of a] finite_cases [of b] by (auto simp: fadd_def exact_rnd)

lemma val_fneg: "is_finite b \<Longrightarrow> is_finite (fneg b) \<and> fl_value (fneg b) = - fl_value b"
  by (cases b) simp_all

lemma val_fsub:
  assumes "is_finite a" and "is_finite b"
  shows "is_finite (fsub (exact d) a b) \<and> fl_value (fsub (exact d) a b) = fl_value a - fl_value b"
  using assms val_fneg [of b] val_fadd [of a "fneg b" d] by (simp add: fsub_def)

lemma val_convert:
  assumes "is_finite a"
  shows "is_finite (convert (exact d) a) \<and> fl_value (convert (exact d) a) = fl_value a"
  using assms finite_cases [of a] by (auto simp: convert_def exact_rnd)

lemma val_promote_value:
  assumes "is_finite a"
  shows "is_finite (promote_value exact d d' a) \<and> fl_value (promote_value exact d d' a) = fl_value a"
  using assms val_convert [of a d'] by (simp add: promote_value_def)

lemma val_frsqrt:
  assumes "is_finite a" and "0 < fl_value a"
  shows "is_finite (frsqrt (exact d) a) \<and> fl_value (frsqrt (exact d) a) = 1 / sqrt (fl_value a)"
  using assms finite_cases [of a] by (auto simp: frsqrt_def exact_rsqrt_pos)

lemma exact_channel:
  assumes "is_finite w" "is_finite b" "is_finite rm" "is_finite rv" "is_finite e" "is_finite xv"
    and "0 < fl_value rv + fl_value e"
  shows "is_finite
      (let f = exact Float32;
           scale = fmul f w (frsqrt f (fadd f rv (convert f e)));
           bias' = fsub f b (fmul f rm scale)
       in fadd (exact d)
            (fmul (exact d) (promote_value exact dx d xv) (promote_value exact Float32 d scale))
            (promote_value exact Float32 d bias')) \<and>
    fl_value
      (let f = exact Float32;
           scale = fmul f w (frsqrt f (fadd f rv (convert f e)));
           bias' = fsub f b (fmul f rm scale)
       in fadd (exact d)
            (fmul (exact d) (promote_value exact dx d xv) (promote_value exact Float32 d scale))
            (promote_value exact Float32 d bias')) =
      fl_value xv * (fl_value w / sqrt (fl_value rv + fl_value e))
      + (fl_value b - fl_value rm * (fl_value w / sqrt (fl_value rv + fl_value e)))"
proof -
  let ?f = "exact Float32"
  let ?a = "fadd ?f rv (convert ?f e)"
  let ?scale = "fmul ?f w (frsqrt ?f ?a)"
  let ?bias = "fsub ?f b (fmul ?f rm ?scale)"
  have a: "is_finite ?a" "fl_value ?a = fl_value rv + fl_value e"
    using val_fadd [of rv "convert ?f e" Float32] val_convert [of e Float32] assms(4,5)
    by simp_all
  have r: "is_finite (frsqrt ?f ?a)" "fl_value (frsqrt ?f ?a) = 1 / sqrt (fl_value rv + fl_value e)"
    using val_frsqrt [of ?a Float32] a assms(7) by simp_all
  have sc: "is_finite ?scale" "fl_value ?scale = fl_value w / sqrt (fl_value rv + fl_value e)"
    using val_fmul [of w "frsqrt ?f ?a" Float32] r assms(1) by simp_all
  have rs: "is_finite (fmul ?f rm ?scale)"
    "fl_value (fmul ?f rm ?scale) = fl_value rm * (fl_value w / sqrt (fl_value rv + fl_value e))"
    using val_fmul [of rm ?scale Float32] sc assms(3) by simp_all
  have bi: "is_finite ?bias"
    "fl_value ?bias =
       fl_value b - fl_value rm * (fl_value w / sqrt (fl_value rv + fl_value e))"
    using val_fsub [of b "fmul ?f rm ?scale" Float32] rs assms(2) by simp_all
  have px: "is_finite (promote_value exact dx d xv)"
    "fl_value (promote_value exact dx d xv) = fl_value xv"
    using val_promote_value [OF assms(6)] by simp_all
  have ps: "is_finite (promote_value exact Float32 d ?scale)"
    "fl_value (promote_value exact Float32 d ?scale) =
       fl_value w / sqrt (fl_value rv + fl_value e)"
    using val_promote_value [OF sc(1)] sc(2) by simp_all
  have pb: "is_finite (promote_value exact Float32 d ?bias)"
    "fl_value (promote_value exact Float32 d ?bias) =
       fl_value b - fl_value rm * (fl_value w / sqrt (fl_value rv + fl_value e))"
    using val_promote_value [OF bi(1)] bi(2) by simp_all
  let ?m = "fmul (exact d) (promote_value exact dx d xv) (promote_value exact Float32 d ?scale)"
  have m: "is_finite ?m"
    "fl_value ?m = fl_value xv * (fl_value w / sqrt (fl_value rv + fl_value e))"
    using val_fmul [OF px(1) ps(1), of d] px(2) ps(2) by simp_all
  from val_fadd [OF m(1) pb(1), of d] m(2) pb(2) show ?thesis
    by (simp add: Let_def)
qed

text \<open>
  C1. For an input of shape \<open>[B, C, H, W]\<close> and buffers of length \<open>C\<close>, forward
  returns a tensor of the same shape whose element at every position \<open>[n, c, h, w]\<close>
  is \<open>x * scale[c] + (bias[c] - running_mean[c] * scale[c])\<close>, where \<open>scale[c]\<close> is
  \<open>weight[c]\<close> times the reciprocal square root of \<open>running_var[c] + eps\<close>: in
  every format with the format's operations (inf and NaN included), and in exact
  arithmetic, for finite values with \<open>running_var[c] + eps > 0\<close>, as the real number
  that the formula with \<open>scale[c] = weight[c] / sqrt (running_var[c] + eps)\<close> denotes.
\<close>

theorem forward_formula:
  assumes x: "shape x = [B, C, H, W]"
    and w: "length (weight self) = C" and b: "length (bias self) = C"
    and rm: "length (running_mean self) = C" and rv: "length (running_var self) = C"
  shows "(\<exists>y. FrozenBatchNorm2d_forward fm self x = Inr y \<and> shape y = shape x \<and>
      (\<forall>n c h w. n < B \<longrightarrow> c < C \<longrightarrow> h < H \<longrightarrow> w < W \<longrightarrow>
         elem y [n, c, h, w] =
           (let f = fm Float32;
                d = promote_types (dtype x) Float32;
                scale = fmul f (weight self ! c)
                          (frsqrt f (fadd f (running_var self ! c) (convert f (eps self))));
                bias' = fsub f (bias self ! c) (fmul f (running_mean self ! c) scale)
            in fadd (fm d)
                 (fmul (fm d) (promote_value fm (dtype x) d (elem x [n, c, h, w]))
                    (promote_value fm Float32 d scale))
                 (promote_value fm Float32 d bias')))) \<and>
    (\<exists>y. FrozenBatchNorm2d_forward exact self x = Inr y \<and> shape y = shape x \<and>
      (\<forall>n c h w. n < B \<longrightarrow> c < C \<longrightarrow> h < H \<longrightarrow> w < W \<longrightarrow>
         is_finite (weight self ! c) \<longrightarrow> is_finite (bias self ! c) \<longrightarrow>
         is_finite (running_mean self ! c) \<longrightarrow> is_finite (running_var self ! c) \<longrightarrow>
         is_finite (eps self) \<longrightarrow> is_finite (elem x [n, c, h, w]) \<longrightarrow>
         0 < fl_value (running_var self ! c) + fl_value (eps self) \<longrightarrow>
         is_finite (elem y [n, c, h, w]) \<and>
         fl_value (elem y [n, c, h, w]) =
           fl_value (elem x [n, c, h, w]) *
             (fl_value (weight self ! c) /
              sqrt (fl_value (running_var self ! c) + fl_value (eps self)))
           + (fl_value (bias self ! c)
              - fl_value (running_mean self ! c) *
                  (fl_value (weight self ! c) /
                   sqrt (fl_value (running_var self ! c) + fl_value (eps self))))))"
proof (rule conjI)
  show "\<exists>y. FrozenBatchNorm2d_forward fm self x = Inr y \<and> shape y = shape x \<and>
      (\<forall>n c h w. n < B \<longrightarrow> c < C \<longrightarrow> h < H \<longrightarrow> w < W \<longrightarrow>
         elem y [n, c, h, w] =
           (let f = fm Float32;
                d = promote_types (dtype x) Float32;
                scale = fmul f (weight self ! c)
                          (frsqrt f (fadd f (running_var self ! c) (convert f (eps self))));
                bias' = fsub f (bias self ! c) (fmul f (running_mean self ! c) scale)
            in fadd (fm d)
                 (fmul (fm d) (promote_value fm (dtype x) d (elem x [n, c, h, w]))
                    (promote_value fm Float32 d scale))
                 (promote_value fm Float32 d bias')))"
    by (rule forward_elements [OF x w b rm rv])
next
  from forward_elements [OF x w b rm rv, of exact] obtain y where
    y: "FrozenBatchNorm2d_forward exact self x = Inr y" "shape y = shape x"
    and el: "\<And>n c h w. n < B \<Longrightarrow> c < C \<Longrightarrow> h < H \<Longrightarrow> w < W \<Longrightarrow>
         elem y [n, c, h, w] =
           (let f = exact Float32;
                d = promote_types (dtype x) Float32;
                scale = fmul f (weight self ! c)
                          (frsqrt f (fadd f (running_var self ! c) (convert f (eps self))));
                bias' = fsub f (bias self ! c) (fmul f (running_mean self ! c) scale)
            in fadd (exact d)
                 (fmul (exact d) (promote_value exact (dtype x) d (elem x [n, c, h, w]))
                    (promote_value exact Float32 d scale))
                 (promote_value exact Float32 d bias'))"
    by blast
  have "is_finite (elem y [n, c, h, w]) \<and>
         fl_value (elem y [n, c, h, w]) =
           fl_value (elem x [n, c, h, w]) *
             (fl_value (weight self ! c) /
              sqrt (fl_value (running_var self ! c) + fl_value (eps self)))
           + (fl_value (bias self ! c)
              - fl_value (running_mean self ! c) *
                  (fl_value (weight self ! c) /
                   sqrt (fl_value (running_var self ! c) + fl_value (eps self))))"
    if "n < B" "c < C" "h < H" "w < W"
      and "is_finite (weight self ! c)" "is_finite (bias self ! c)"
      "is_finite (running_mean self ! c)" "is_finite (running_var self ! c)"
      "is_finite (eps self)" "is_finite (elem x [n, c, h, w])"
      "0 < fl_value (running_var self ! c) + fl_value (eps self)"
    for n c h w
    using exact_channel [OF that(5-11), of "promote_types (dtype x) Float32" "dtype x"]
      el [OF that(1-4)]
    by (simp add: Let_def)
  with y show "\<exists>y. FrozenBatchNorm2d_forward exact self x = Inr y \<and> shape y = shape x \<and>
      (\<forall>n c h w. n < B \<longrightarrow> c < C \<longrightarrow> h < H \<longrightarrow> w < W \<longrightarrow>
         is_finite (weight self ! c) \<longrightarrow> is_finite (bias self ! c) \<longrightarrow>
         is_finite (running_mean self ! c) \<longrightarrow> is_finite (running_var self ! c) \<longrightarrow>
         is_finite (eps self) \<longrightarrow> is_finite (elem x [n, c, h, w]) \<longrightarrow>
         0 < fl_value (running_var self ! c) + fl_value (eps self) \<longrightarrow>
         is_finite (elem y [n, c, h, w]) \<and>
         fl_value (elem y [n, c, h, w]) =
           fl_value (elem x [n, c, h, w]) *
             (fl_value (weight self ! c) /
              sqrt (fl_value (running_var self ! c) + fl_value (eps self)))
           + (fl_value (bias self ! c)
              - fl_value (running_mean self ! c) *
                  (fl_value (weight self ! c) /
                   sqrt (fl_value (running_var self ! c) + fl_value (eps self)))))"
    by blast
qed

text \<open>The theorem of C1 on two channels, one of them with running variance 0.\<close>

theorem forward_formula_witness:
  "shape example_x = [1, 2, 1, 1] \<and> length (weight example_bn) = 2 \<and>
   length (bias example_bn) = 2 \<and> length (running_mean example_bn) = 2 \<and>
   length (running_var example_bn) = 2 \<and>
   (\<exists>y. FrozenBatchNorm2d_forward exact example_bn example_x = Inr y \<and>
      shape y = [1, 2, 1, 1] \<and>
      fl_value (elem y [0, 0, 0, 0]) = 5 \<and> fl_value (elem y [0, 1, 0, 0]) = 2)"
proof -
  have h: "shape example_x = [1, 2, 1, 1]" "length (weight example_bn) = 2"
    "length (bias example_bn) = 2" "length (running_mean example_bn) = 2"
    "length (running_var example_bn) = 2"
    by (simp_all add: example_x_def example_bn_def)
  from forward_formula [OF h, of exact, THEN conjunct2] obtain y where
    y: "FrozenBatchNorm2d_forward exact example_bn example_x = Inr y \<and> shape y = shape example_x \<and>
      (\<forall>n c h w. n < 1 \<longrightarrow> c < 2 \<longrightarrow> h < 1 \<longrightarrow> w < 1 \<longrightarrow>
         is_finite (weight example_bn ! c) \<longrightarrow> is_finite (bias example_bn ! c) \<longrightarrow>
         is_finite (running_mean example_bn ! c) \<longrightarrow> is_finite (running_var example_bn ! c) \<longrightarrow>
         is_finite (eps example_bn) \<longrightarrow> is_finite (elem example_x [n, c, h, w]) \<longrightarrow>
         0 < fl_value (running_var example_bn ! c) + fl_value (eps example_bn) \<longrightarrow>
         is_finite (elem y [n, c, h, w]) \<and>
         fl_value (elem y [n, c, h, w]) =
           fl_value (elem example_x [n, c, h, w]) *
             (fl_value (weight example_bn ! c) /
              sqrt (fl_value (running_var example_bn ! c) + fl_value (eps example_bn)))
           + (fl_value (bias example_bn ! c)
              - fl_value (running_mean example_bn ! c) *
                  (fl_value (weight example_bn ! c) /
                   sqrt (fl_value (running_var example_bn ! c) + fl_value (eps example_bn)))))"
    ..
  note v = y [THEN conjunct2, THEN conjunct2, rule_format]
  have "fl_value (elem y [0, 0, 0, 0]) = 5"
    using v [of 0 0 0 0] by (simp add: example_x_def example_bn_def)
  moreover have "fl_value (elem y [0, 1, 0, 0]) = 2"
    using v [of 0 1 0 0] by (simp add: example_x_def example_bn_def)
  moreover have "shape y = [1, 2, 1, 1]"
    using y h(1) by simp
  ultimately show ?thesis using h y by simp
qed




subsection \<open>float32\<close>

lemma round_half_even_int: "round_half_even (of_int k) = k"
  by (simp add: round_half_even_def)

lemma pow2_ratio:
  assumes "1 \<le> p"
  shows "2 powr (of_int k :: real) / 2 powr (of_int k - (real p - 1)) = of_int (2 ^ (p - 1))"
proof -
  have pe: "of_int k - (of_int k - (real p - 1)) = real (p - 1)"
    using assms by (simp add: of_nat_diff)
  have "2 powr (of_int k :: real) / 2 powr (of_int k - (real p - 1)) =
      2 powr (of_int k - (of_int k - (real p - 1)))"
    by (rule powr_diff [symmetric])
  also have "\<dots> = 2 powr real (p - 1)" by (simp only: pe)
  also have "\<dots> = 2 ^ (p - 1)" by (rule powr_realpow) simp
  finally show ?thesis by simp
qed

lemma ieee_round_pow2:
  assumes "emin \<le> k" and "1 \<le> p"
  shows "ieee_round p emin emax (2 powr of_int k) =
    (if k \<le> emax then Fin (2 powr of_int k) else PInf)"
proof -
  let ?r = "2 powr (of_int k :: real)"
  have l: "\<lfloor>log 2 \<bar>?r\<bar>\<rfloor> = k" by simp
  have e: "max \<lfloor>log 2 \<bar>?r\<bar>\<rfloor> emin = k" using assms(1) by (simp add: l)
  let ?u = "2 powr (of_int k - (real p - 1))"
  have m: "of_int (round_half_even (?r / ?u)) * ?u = ?r"
  proof -
    have "of_int (round_half_even (?r / ?u)) = ?r / ?u"
      unfolding pow2_ratio [OF assms(2)] by (simp only: round_half_even_int)
    then show ?thesis by simp
  qed
  have big: "2 powr (of_int emax + 1) \<le> \<bar>?r\<bar> \<longleftrightarrow> \<not> k \<le> emax"
  proof -
    have "2 powr (of_int emax + 1) \<le> \<bar>?r\<bar> \<longleftrightarrow> (2 :: real) powr (of_int (emax + 1)) \<le> 2 powr of_int k"
      by simp
    also have "\<dots> \<longleftrightarrow> (of_int (emax + 1) :: real) \<le> of_int k"
      by (rule powr_le_cancel_iff) simp
    also have "\<dots> \<longleftrightarrow> \<not> k \<le> emax" by linarith
    finally show ?thesis .
  qed
  show ?thesis
    unfolding ieee_round_def Let_def e m using big by simp
qed


lemma float32_round_1: "ieee_round 24 (- 126) 127 1 = Fin 1"
  using ieee_round_pow2 [of "- 126" 0 24 127] by simp





lemma rsqrt_pos_float32_1: "rsqrt_pos (torch_formats Float32) 1 = Fin 1"
  by (simp add: ieee_format_def float32_round_1)




section \<open>Properties of loading\<close>

lemma dict_del_absent: "k \<notin> set (map fst (dict_del k d))"
  by (auto simp: dict_del_def)

lemma dict_del_idem: "dict_del k (dict_del k d) = dict_del k d"
  by (simp add: dict_del_def)

lemma dict_del_id: "\<not> dict_contains k d \<Longrightarrow> dict_del k d = d"
  by (induction d) (auto simp: dict_del_def dict_contains_def)

lemma load_eq: "load_from_state_dict self sd p strict ms us es =
  Module_load_from_state_dict self (dict_del (p @ ''num_batches_tracked'') sd) p strict ms us es"
  by (simp add: load_from_state_dict_def Let_def dict_del_id)

lemma unexpected_Module:
  "unexpected_keys (Module_load_from_state_dict self sd p strict ms us es) =
     us @ (if strict
           then filter (\<lambda>key. startswith key p \<and> input_name p key \<notin> set local_state) (map fst sd)
           else [])"
  by (simp add: Module_load_from_state_dict_def Let_def split: prod.splits)

lemma state_dict_Module:
  "state_dict (Module_load_from_state_dict self sd p strict ms us es) = sd"
  by (simp add: Module_load_from_state_dict_def Let_def split: prod.splits)

text \<open>
  C7. Loading gives the same result (buffers, state dict, missing keys, unexpected keys,
  error messages) whether or not the state dict holds the key
  \<open>prefix + 'num_batches_tracked'\<close>: the result is that of the inherited loader on the
  state dict without the key, and the key is never reported as unexpected, not even
  under \<open>strict\<close>.
\<close>

theorem load_counter_key_ignored:
  "load_from_state_dict self sd p strict ms us es =
     load_from_state_dict self (dict_del (p @ ''num_batches_tracked'') sd) p strict ms us es \<and>
   load_from_state_dict self sd p strict ms us es =
     Module_load_from_state_dict self (dict_del (p @ ''num_batches_tracked'') sd) p strict
       ms us es \<and>
   p @ ''num_batches_tracked'' \<notin>
     set (drop (length us) (unexpected_keys (load_from_state_dict self sd p strict ms us es)))"
proof (intro conjI)
  show "load_from_state_dict self sd p strict ms us es =
     Module_load_from_state_dict self (dict_del (p @ ''num_batches_tracked'') sd) p strict
       ms us es"
    by (rule load_eq)
  show "load_from_state_dict self sd p strict ms us es =
     load_from_state_dict self (dict_del (p @ ''num_batches_tracked'') sd) p strict ms us es"
    by (simp only: load_eq dict_del_idem)
  show "p @ ''num_batches_tracked'' \<notin>
     set (drop (length us) (unexpected_keys (load_from_state_dict self sd p strict ms us es)))"
    using dict_del_absent [of "p @ ''num_batches_tracked''" sd]
    by (simp add: load_eq unexpected_Module)
qed

text \<open>
  C10. Loading changes the caller's state dict: after the call it is the dict before the
  call without the entry of \<open>prefix + 'num_batches_tracked'\<close>, so it does not contain
  that key any more.
\<close>

theorem load_deletes_key:
  "state_dict (load_from_state_dict self sd p strict ms us es) =
     filter (\<lambda>kv. fst kv \<noteq> p @ ''num_batches_tracked'') sd \<and>
   \<not> dict_contains (p @ ''num_batches_tracked'')
       (state_dict (load_from_state_dict self sd p strict ms us es))"
  using dict_del_absent [of "p @ ''num_batches_tracked''" sd]
  by (simp add: load_eq state_dict_Module dict_contains_def) (simp add: dict_del_def)

section \<open>Properties of the extraction\<close>

lemma bind_Inr_iff: "bind r f = Inr y \<longleftrightarrow> (\<exists>v. r = Inr v \<and> f v = Inr y)"
  by (cases r) (simp_all add: bind_def)

lemma bind_Inr: "bind (Inr v) f = f v"
  by (simp add: bind_def)

lemma bind_right: "bind r Inr = r"
  by (cases r) (simp_all add: bind_def)

lemma bind_Inl: "bind (Inl e) f = Inl e"
  by (simp add: bind_def)

lemma body_multi_elim:
  assumes "body self x = Inr xs"
    and "return_layers self = [(''layer2'', ''0''), (''layer3'', ''1''), (''layer4'', ''2'')]"
  shows "\<exists>x1 x2 x3 x4 x5 x6 x7 x8.
    conv1 (backbone self) x = Inr x1 \<and> bn1 (backbone self) x1 = Inr x2 \<and>
    relu (backbone self) x2 = Inr x3 \<and> maxpool (backbone self) x3 = Inr x4 \<and>
    layer1 (backbone self) x4 = Inr x5 \<and> layer2 (backbone self) x5 = Inr x6 \<and>
    layer3 (backbone self) x6 = Inr x7 \<and> layer4 (backbone self) x7 = Inr x8 \<and>
    xs = [(''0'', x6), (''1'', x7), (''2'', x8)]"
  using assms by (auto simp: body_def named_children_def split: sum.splits)

lemma body_single_elim:
  assumes "body self x = Inr xs"
    and "return_layers self = [(''layer4'', ''0'')]"
  shows "\<exists>x1 x2 x3 x4 x5 x6 x7 x8.
    conv1 (backbone self) x = Inr x1 \<and> bn1 (backbone self) x1 = Inr x2 \<and>
    relu (backbone self) x2 = Inr x3 \<and> maxpool (backbone self) x3 = Inr x4 \<and>
    layer1 (backbone self) x4 = Inr x5 \<and> layer2 (backbone self) x5 = Inr x6 \<and>
    layer3 (backbone self) x6 = Inr x7 \<and> layer4 (backbone self) x7 = Inr x8 \<and>
    xs = [(''0'', x8)]"
  using assms by (auto simp: body_def named_children_def split: sum.splits)

lemma support_stages:
  assumes "conv1 (backbone self) (tensors tlist) = Inr x1" "bn1 (backbone self) x1 = Inr x2"
    "relu (backbone self) x2 = Inr x3" "maxpool (backbone self) x3 = Inr x4"
    "layer1 (backbone self) x4 = Inr x5" "layer2 (backbone self) x5 = Inr x6"
    "layer3 (backbone self) x6 = Inr x7" "layer4 (backbone self) x7 = Inr x8"
  shows "support_encoding_net self tlist False = add_level (mask_nt tlist) x8 ''0'' []"
    and "support_encoding_net self tlist True =
      bind (add_level (mask_nt tlist) x6 ''0'' []) (\<lambda>out.
      bind (add_level (mask_nt tlist) x7 ''1'' out) (\<lambda>out.
      add_level (mask_nt tlist) x8 ''2'' out))"
  using assms by (simp_all add: support_encoding_net_def Let_def bind_Inr bind_right)

lemma set_dict_set: "set (dict_set k v d) \<subseteq> insert (k, v) (set d)"
  by (induction d) (auto split: if_splits)

lemma keys_dict_set:
  "map fst (dict_set k v d) = (if k \<in> set (map fst d) then map fst d else map fst d @ [k])"
proof (induction d)
  case Nil
  show ?case by simp
next
  case (Cons a d)
  show ?case
  proof (cases "fst a = k")
    case True
    then show ?thesis by (cases a) simp
  next
    case False
    with Cons show ?thesis by (cases a) auto
  qed
qed

lemma distinct_dict_set: "distinct (map fst d) \<Longrightarrow> distinct (map fst (dict_set k v d))"
  by (simp add: keys_dict_set)

lemma interpolate_shape:
  assumes "interpolate t sz = Inr r"
  shows "shape r = take 2 (shape t) @ sz \<and> length sz + 2 = length (shape t)"
  using assms by (auto simp: interpolate_def Let_def split: if_splits)

lemma interpolate_mask_shape:
  assumes "interpolate_mask m x = Inr mk"
  shows "shape mk = take 1 (shape m) @ last2 (shape x)
    \<and> length (last2 (shape x)) + 1 = length (shape m)"
proof -
  from assms obtain t where t: "interpolate (to_dtype Float32 (unsqueeze0 m)) (last2 (shape x)) = Inr t"
    and mk: "index0 (to_dtype Bool t) = Inr mk"
    by (auto simp: interpolate_mask_def split: sum.splits)
  from interpolate_shape [OF t]
  have st: "shape t = 1 # take 1 (shape m) @ last2 (shape x)"
    and len: "length (last2 (shape x)) + 1 = length (shape m)"
    by (simp_all add: to_dtype_def unsqueeze0_def numeral_2_eq_2)
  from mk st have "shape mk = take 1 (shape m) @ last2 (shape x)"
    by (auto simp: index0_def to_dtype_def split: list.splits if_splits)
  with len show ?thesis by simp
qed

lemma last2_append: "length b = 2 \<Longrightarrow> last2 (a @ b) = b"
  by (simp add: last2_def)

lemma length_last2: "2 \<le> length s \<Longrightarrow> length (last2 s) = 2"
  by (simp add: last2_def)

lemma interpolate_mask_last2:
  assumes "interpolate_mask m x = Inr mk" and "2 \<le> length (shape x)"
  shows "last2 (shape mk) = last2 (shape x)"
  using interpolate_mask_shape [OF assms(1)] assms(2)
  by (simp add: last2_append length_last2)

lemma add_level_Inr:
  assumes "add_level m x k out = Inr r"
  shows "\<exists>m' mk. m = Some m' \<and> interpolate_mask m' x = Inr mk
    \<and> r = dict_set k \<lparr>tensors = x, mask_nt = Some mk\<rparr> out"
  using assms by (auto simp: add_level_def split: option.splits sum.splits)

lemma new_level_ok:
  assumes "interpolate_mask m' x = Inr mk" and "2 \<le> length (shape x)"
  shows "mask_matches \<lparr>tensors = x, mask_nt = Some mk\<rparr>"
  using interpolate_mask_last2 [OF assms] by (simp add: mask_matches_def)

lemma dict_set_inv:
  assumes "\<forall>kv \<in> set out. P (snd kv)" and "P v"
  shows "\<forall>kv \<in> set (dict_set k v out). P (snd kv)"
  using assms set_dict_set [of k v out] by auto

lemma add_level_inv:
  assumes "add_level m x k out = Inr r"
    and "\<forall>kv \<in> set out. 2 \<le> length (shape (tensors (snd kv))) \<longrightarrow> mask_matches (snd kv)"
  shows "\<forall>kv \<in> set r. 2 \<le> length (shape (tensors (snd kv))) \<longrightarrow> mask_matches (snd kv)"
proof -
  from add_level_Inr [OF assms(1)] obtain m' mk where
    mk: "interpolate_mask m' x = Inr mk"
    and r: "r = dict_set k \<lparr>tensors = x, mask_nt = Some mk\<rparr> out"
    by blast
  have "2 \<le> length (shape (tensors \<lparr>tensors = x, mask_nt = Some mk\<rparr>))
      \<longrightarrow> mask_matches \<lparr>tensors = x, mask_nt = Some mk\<rparr>"
    using new_level_ok [OF mk] by simp
  with assms(2) show ?thesis
    unfolding r by (rule dict_set_inv)
qed

lemma forward_loop_inv:
  assumes "forward_loop m xs out = Inr r"
    and "\<forall>kv \<in> set out. 2 \<le> length (shape (tensors (snd kv))) \<longrightarrow> mask_matches (snd kv)"
  shows "\<forall>kv \<in> set r. 2 \<le> length (shape (tensors (snd kv))) \<longrightarrow> mask_matches (snd kv)"
  using assms
proof (induction m xs out rule: forward_loop.induct)
  case (1 m out)
  then show ?case by simp
next
  case (2 m name x xs out)
  from "2.prems"(1) obtain m' mk where m: "m = Some m'"
    and mk: "interpolate_mask m' x = Inr mk"
    and rest: "forward_loop m xs (dict_set name \<lparr>tensors = x, mask_nt = Some mk\<rparr> out) = Inr r"
    by (auto split: option.splits sum.splits)
  have "add_level m x name out = Inr (dict_set name \<lparr>tensors = x, mask_nt = Some mk\<rparr> out)"
    by (simp add: add_level_def m mk)
  from add_level_inv [OF this "2.prems"(2)] "2.IH" [OF m mk rest]
  show ?case by blast
qed

lemma add_level_distinct:
  assumes "add_level m x k out = Inr r" and "distinct (map fst out)"
  shows "distinct (map fst r)"
  using add_level_Inr [OF assms(1)] assms(2) by (auto simp: distinct_dict_set)

lemma forward_loop_distinct:
  assumes "forward_loop m xs out = Inr r" and "distinct (map fst out)"
  shows "distinct (map fst r)"
  using assms
proof (induction m xs out rule: forward_loop.induct)
  case (1 m out)
  then show ?case by simp
next
  case (2 m name x xs out)
  from "2.prems"(1) obtain m' mk where m: "m = Some m'"
    and mk: "interpolate_mask m' x = Inr mk"
    and rest: "forward_loop m xs (dict_set name \<lparr>tensors = x, mask_nt = Some mk\<rparr> out) = Inr r"
    by (auto split: option.splits sum.splits)
  from "2.IH" [OF m mk rest] "2.prems"(2) show ?case
    by (simp add: distinct_dict_set)
qed

lemma forward_loop_None: "xs \<noteq> [] \<Longrightarrow> forward_loop None xs out = Inl AssertionError"
  by (cases xs) auto

lemma add_level_None: "add_level None x k out = Inl TypeError"
  by (simp add: add_level_def)

lemma support_cases:
  assumes "support_encoding_net self tlist ril = Inr out"
  shows "\<exists>x6 x7 x8. 
    (if ril
     then bind (add_level (mask_nt tlist) x6 ''0'' []) (\<lambda>out.
          bind (add_level (mask_nt tlist) x7 ''1'' out) (\<lambda>out.
          add_level (mask_nt tlist) x8 ''2'' out))
     else add_level (mask_nt tlist) x8 ''0'' []) = Inr out"
proof -
  from assms obtain x1 x2 x3 x4 x5 x6 x7 x8 where
    st: "conv1 (backbone self) (tensors tlist) = Inr x1" "bn1 (backbone self) x1 = Inr x2"
    "relu (backbone self) x2 = Inr x3" "maxpool (backbone self) x3 = Inr x4"
    "layer1 (backbone self) x4 = Inr x5" "layer2 (backbone self) x5 = Inr x6"
    "layer3 (backbone self) x6 = Inr x7" "layer4 (backbone self) x7 = Inr x8"
    unfolding support_encoding_net_def Let_def bind_Inr_iff
    by (auto split: if_splits)
  from support_stages [OF st] assms show ?thesis
    by (cases ril) auto
qed

lemma Backbone_init_Inr:
  assumes "Backbone_init resnet imp name tb ril a = Inr self"
  shows "\<exists>b. resnet name [False, False, dilation a] imp = Inr b \<and>
    name \<noteq> ''resnet18'' \<and> name \<noteq> ''resnet34'' \<and>
    backbone self = b \<and>
    return_layers self = return_layers (BackboneBase_init b tb ril) \<and>
    num_channels self = num_channels (BackboneBase_init b tb ril) \<and>
    strides self = (if ril then [8, 16, if dilation a then 16 else 32]
                    else [if dilation a then 16 else 32])"
  using assms
  by (auto simp: Backbone_init_def Let_def BackboneBase_init_def split: sum.splits if_splits)

lemma return_layers_init:
  "return_layers (BackboneBase_init b tb ril) =
     (if ril then [(''layer2'', ''0''), (''layer3'', ''1''), (''layer4'', ''2'')]
      else [(''layer4'', ''0'')])"
  by (simp add: BackboneBase_init_def)

lemma forward_multi_elim:
  assumes "BackboneBase_forward self tlist = Inr out"
    and "return_layers self = [(''layer2'', ''0''), (''layer3'', ''1''), (''layer4'', ''2'')]"
  shows "\<exists>x1 x2 x3 x4 x5 x6 x7 x8 m m6 m7 m8.
    conv1 (backbone self) (tensors tlist) = Inr x1 \<and> bn1 (backbone self) x1 = Inr x2 \<and>
    relu (backbone self) x2 = Inr x3 \<and> maxpool (backbone self) x3 = Inr x4 \<and>
    layer1 (backbone self) x4 = Inr x5 \<and> layer2 (backbone self) x5 = Inr x6 \<and>
    layer3 (backbone self) x6 = Inr x7 \<and> layer4 (backbone self) x7 = Inr x8 \<and>
    mask_nt tlist = Some m \<and> interpolate_mask m x6 = Inr m6 \<and>
    interpolate_mask m x7 = Inr m7 \<and> interpolate_mask m x8 = Inr m8 \<and>
    out = [(''0'', \<lparr>tensors = x6, mask_nt = Some m6\<rparr>),
           (''1'', \<lparr>tensors = x7, mask_nt = Some m7\<rparr>),
           (''2'', \<lparr>tensors = x8, mask_nt = Some m8\<rparr>)]"
proof -
  from assms(1) obtain xs where xs: "body self (tensors tlist) = Inr xs"
    and loop: "forward_loop (mask_nt tlist) xs [] = Inr out"
    by (auto simp: BackboneBase_forward_def split: sum.splits)
  from body_multi_elim [OF xs assms(2)] obtain x1 x2 x3 x4 x5 x6 x7 x8 where
    st: "conv1 (backbone self) (tensors tlist) = Inr x1" "bn1 (backbone self) x1 = Inr x2"
    "relu (backbone self) x2 = Inr x3" "maxpool (backbone self) x3 = Inr x4"
    "layer1 (backbone self) x4 = Inr x5" "layer2 (backbone self) x5 = Inr x6"
    "layer3 (backbone self) x6 = Inr x7" "layer4 (backbone self) x7 = Inr x8"
    and xs_eq: "xs = [(''0'', x6), (''1'', x7), (''2'', x8)]"
    by blast
  from loop obtain m m6 m7 m8 where "mask_nt tlist = Some m" "interpolate_mask m x6 = Inr m6"
    "interpolate_mask m x7 = Inr m7" "interpolate_mask m x8 = Inr m8"
    "out = [(''0'', \<lparr>tensors = x6, mask_nt = Some m6\<rparr>),
           (''1'', \<lparr>tensors = x7, mask_nt = Some m7\<rparr>),
           (''2'', \<lparr>tensors = x8, mask_nt = Some m8\<rparr>)]"
    unfolding xs_eq by (auto split: option.splits sum.splits)
  with st show ?thesis by blast
qed

lemma forward_single_elim:
  assumes "BackboneBase_forward self tlist = Inr out"
    and "return_layers self = [(''layer4'', ''0'')]"
  shows "\<exists>x8 m m8. mask_nt tlist = Some m \<and> interpolate_mask m x8 = Inr m8 \<and>
    out = [(''0'', \<lparr>tensors = x8, mask_nt = Some m8\<rparr>)]"
proof -
  from assms(1) obtain xs where xs: "body self (tensors tlist) = Inr xs"
    and loop: "forward_loop (mask_nt tlist) xs [] = Inr out"
    by (auto simp: BackboneBase_forward_def split: sum.splits)
  from body_single_elim [OF xs assms(2)] obtain x8 where xs_eq: "xs = [(''0'', x8)]"
    by blast
  from loop show ?thesis
    unfolding xs_eq by (auto split: option.splits sum.splits)
qed

text \<open>
  C4, as the code has it. An extractor constructed with \<open>return_interm_layers\<close> has
  strides \<open>[8, 16, 32]\<close> and channel counts \<open>[512, 1024, 2048]\<close> and returns exactly
  the three levels \<open>'0'\<close>, \<open>'1'\<close>, \<open>'2'\<close>; one constructed without it has stride
  \<open>[32]\<close> and channel count \<open>[2048]\<close> and returns exactly the level \<open>'0'\<close>. With
  dilation the last stride is halved to 16 in both modes.
\<close>

theorem extractor_levels:
  assumes "Backbone_init resnet imp name tb ril a = Inr self"
  shows "(ril \<longrightarrow>
            strides self = [8, 16, if dilation a then 16 else 32] \<and>
            num_channels self = [512, 1024, 2048] \<and>
            (\<forall>tlist out. BackboneBase_forward self tlist = Inr out \<longrightarrow>
               map fst out = [''0'', ''1'', ''2'']))
       \<and> (\<not> ril \<longrightarrow>
            strides self = [if dilation a then 16 else 32] \<and>
            num_channels self = [2048] \<and>
            (\<forall>tlist out. BackboneBase_forward self tlist = Inr out \<longrightarrow>
               map fst out = [''0'']))"
proof -
  from Backbone_init_Inr [OF assms] obtain b where
    rl: "return_layers self = return_layers (BackboneBase_init b tb ril)"
    and nc: "num_channels self = num_channels (BackboneBase_init b tb ril)"
    and st: "strides self = (if ril then [8, 16, if dilation a then 16 else 32]
                    else [if dilation a then 16 else 32])"
    by blast
  show ?thesis
  proof (cases ril)
    case True
    have "map fst out = [''0'', ''1'', ''2'']" if "BackboneBase_forward self tlist = Inr out"
      for tlist out
      using forward_multi_elim [OF that] rl True by (auto simp: return_layers_init)
    with True st nc show ?thesis by (simp add: BackboneBase_init_def)
  next
    case False
    have "map fst out = [''0'']" if "BackboneBase_forward self tlist = Inr out"
      for tlist out
      using forward_single_elim [OF that] rl False by (auto simp: return_layers_init)
    with False st nc show ?thesis by (simp add: BackboneBase_init_def)
  qed
qed

text \<open>
  C9. Constructing the extractor for \<open>resnet18\<close> or \<open>resnet34\<close> always fails, in
  multi-level mode as in single-level mode: by the assertion when torchvision built the
  trunk, by torchvision's own error when it did not.
\<close>

theorem small_resnet_rejected:
  assumes "name = ''resnet18'' \<or> name = ''resnet34''"
  shows "(\<exists>e. Backbone_init resnet imp name tb ril a = Inl e) \<and>
    (\<forall>b. resnet name [False, False, dilation a] imp = Inr b \<longrightarrow>
       Backbone_init resnet imp name tb ril a = Inl AssertionError)"
  using assms by (auto simp: Backbone_init_def Let_def split: sum.splits)

lemma support_inv:
  assumes "support_encoding_net self tlist ril = Inr out"
  shows "\<forall>kv \<in> set out. 2 \<le> length (shape (tensors (snd kv))) \<longrightarrow> mask_matches (snd kv)"
proof -
  have e: "\<forall>kv \<in> set ([] :: NestedTensor dict).
      2 \<le> length (shape (tensors (snd kv))) \<longrightarrow> mask_matches (snd kv)"
    by simp
  from support_cases [OF assms] obtain x6 x7 x8 where c:
    "(if ril
     then bind (add_level (mask_nt tlist) x6 ''0'' []) (\<lambda>out.
          bind (add_level (mask_nt tlist) x7 ''1'' out) (\<lambda>out.
          add_level (mask_nt tlist) x8 ''2'' out))
     else add_level (mask_nt tlist) x8 ''0'' []) = Inr out"
    by blast
  show ?thesis
  proof (cases ril)
    case True
    with c obtain o1 o2 where "add_level (mask_nt tlist) x6 ''0'' [] = Inr o1"
      "add_level (mask_nt tlist) x7 ''1'' o1 = Inr o2"
      "add_level (mask_nt tlist) x8 ''2'' o2 = Inr out"
      by (auto simp: bind_Inr_iff)
    then show ?thesis
      using add_level_inv e by blast
  next
    case False
    with c have "add_level (mask_nt tlist) x8 ''0'' [] = Inr out" by simp
    then show ?thesis using add_level_inv e by blast
  qed
qed

lemma support_distinct:
  assumes "support_encoding_net self tlist ril = Inr out"
  shows "distinct (map fst out)"
proof -
  from support_cases [OF assms] obtain x6 x7 x8 where c:
    "(if ril
     then bind (add_level (mask_nt tlist) x6 ''0'' []) (\<lambda>out.
          bind (add_level (mask_nt tlist) x7 ''1'' out) (\<lambda>out.
          add_level (mask_nt tlist) x8 ''2'' out))
     else add_level (mask_nt tlist) x8 ''0'' []) = Inr out"
    by blast
  show ?thesis
  proof (cases ril)
    case True
    with c obtain o1 o2 where "add_level (mask_nt tlist) x6 ''0'' [] = Inr o1"
      "add_level (mask_nt tlist) x7 ''1'' o1 = Inr o2"
      "add_level (mask_nt tlist) x8 ''2'' o2 = Inr out"
      by (auto simp: bind_Inr_iff)
    then show ?thesis
      using add_level_distinct [of "mask_nt tlist"] by (metis distinct.simps(1) list.simps(8))
  next
    case False
    with c have "add_level (mask_nt tlist) x8 ''0'' [] = Inr out" by simp
    then show ?thesis using add_level_distinct [of "mask_nt tlist" x8 "''0''" "[]" out] by simp
  qed
qed

lemma forward_inv:
  assumes "BackboneBase_forward self tlist = Inr out"
  shows "\<forall>kv \<in> set out. 2 \<le> length (shape (tensors (snd kv))) \<longrightarrow> mask_matches (snd kv)"
proof -
  from assms obtain xs where "forward_loop (mask_nt tlist) xs [] = Inr out"
    by (auto simp: BackboneBase_forward_def split: sum.splits)
  from forward_loop_inv [OF this] show ?thesis by simp
qed

lemma forward_distinct:
  assumes "BackboneBase_forward self tlist = Inr out"
  shows "distinct (map fst out)"
proof -
  from assms obtain xs where "forward_loop (mask_nt tlist) xs [] = Inr out"
    by (auto simp: BackboneBase_forward_def split: sum.splits)
  from forward_loop_distinct [OF this] show ?thesis by simp
qed

text \<open>
  C5. In every level returned by the primary or by the support-branch extraction, the
  mask is present and its last two dimensions are those of the level's tensor, for a
  tensor with at least two dimensions (every activation of the trunk has four).
\<close>

theorem level_mask_shape:
  assumes "BackboneBase_forward self tlist = Inr out \<or>
      support_encoding_net self tlist ril = Inr out"
    and "(k, lv) \<in> set out"
    and "2 \<le> length (shape (tensors lv))"
  shows "\<exists>mk. mask_nt lv = Some mk \<and> last2 (shape mk) = last2 (shape (tensors lv))"
proof -
  from assms(1) forward_inv support_inv
  have "\<forall>kv \<in> set out. 2 \<le> length (shape (tensors (snd kv))) \<longrightarrow> mask_matches (snd kv)"
    by blast
  with assms(2,3) have "mask_matches lv" by force
  then show ?thesis
    by (simp add: mask_matches_def split: option.splits)
qed

text \<open>
  C6. For an input without a mask, both extraction operations raise instead of returning
  levels. When the trunk itself ran through, the primary extraction raises the
  AssertionError of its assertion and the support branch the TypeError of \<open>m[None]\<close>.
\<close>

theorem missing_mask_fails:
  assumes "mask_nt tlist = None"
    and "Backbone_init resnet imp name tb ril a = Inr self"
  shows "(\<exists>e. BackboneBase_forward self tlist = Inl e) \<and>
    (\<exists>e. support_encoding_net self tlist ril' = Inl e) \<and>
    (\<forall>xs. body self (tensors tlist) = Inr xs \<longrightarrow>
       BackboneBase_forward self tlist = Inl AssertionError \<and>
       support_encoding_net self tlist ril' = Inl TypeError)"
proof -
  from Backbone_init_Inr [OF assms(2)] obtain b where
    "return_layers self = return_layers (BackboneBase_init b tb ril)"
    by blast
  then have rl: "return_layers self =
     (if ril then [(''layer2'', ''0''), (''layer3'', ''1''), (''layer4'', ''2'')]
      else [(''layer4'', ''0'')])"
    by (simp add: return_layers_init)
  have s: "\<exists>e. support_encoding_net self tlist ril' = Inl e"
  proof (cases "support_encoding_net self tlist ril'")
    case (Inl e)
    then show ?thesis by simp
  next
    case (Inr out)
    from support_cases [OF this] assms(1) show ?thesis
      by (auto simp: add_level_None bind_Inl split: if_splits)
  qed
  have b: "BackboneBase_forward self tlist = Inl AssertionError \<and>
       support_encoding_net self tlist ril' = Inl TypeError"
    if xs: "body self (tensors tlist) = Inr xs" for xs
  proof -
    from xs rl body_multi_elim [of self "tensors tlist" xs]
      body_single_elim [of self "tensors tlist" xs]
    obtain x1 x2 x3 x4 x5 x6 x7 x8 where
      st: "conv1 (backbone self) (tensors tlist) = Inr x1" "bn1 (backbone self) x1 = Inr x2"
      "relu (backbone self) x2 = Inr x3" "maxpool (backbone self) x3 = Inr x4"
      "layer1 (backbone self) x4 = Inr x5" "layer2 (backbone self) x5 = Inr x6"
      "layer3 (backbone self) x6 = Inr x7" "layer4 (backbone self) x7 = Inr x8"
      and ne: "xs \<noteq> []"
      by (cases ril) auto
    have "BackboneBase_forward self tlist = Inl AssertionError"
      by (simp add: BackboneBase_forward_def xs assms(1) forward_loop_None [OF ne])
    moreover have "support_encoding_net self tlist ril' = Inl TypeError"
      using support_stages [OF st] assms(1)
      by (cases ril') (simp_all add: add_level_None bind_Inl)
    ultimately show ?thesis by simp
  qed
  have "\<exists>e. BackboneBase_forward self tlist = Inl e"
  proof (cases "body self (tensors tlist)")
    case (Inl e)
    then show ?thesis by (simp add: BackboneBase_forward_def)
  next
    case (Inr xs)
    with b show ?thesis by blast
  qed
  with s b show ?thesis by blast
qed

section \<open>Properties of the Joiner\<close>

lemma compose_levels_props:
  assumes "distinct (map fst xs)" and "compose_levels self xs = (out, pos)"
  shows "length out = length xs \<and> length pos = length out \<and>
    (\<exists>ks. sorted ks \<and> distinct ks \<and> length ks = length out \<and> mset (zip ks out) = mset xs) \<and>
    (\<forall>i<length out. pos ! i = to_dtype (dtype (tensors (out ! i))) (module1 self (out ! i))
        \<and> dtype (pos ! i) = dtype (tensors (out ! i)))"
proof -
  let ?ys = "sort_key fst xs"
  from assms(2) have out: "out = map snd ?ys"
    and pos: "pos = map (\<lambda>x. to_dtype (dtype (tensors x)) (module1 self x)) out"
    by (auto simp: compose_levels_def Let_def)
  have "sorted (map fst ?ys)" by simp
  moreover have "distinct (map fst ?ys)"
  proof -
    have "mset (map fst ?ys) = mset (map fst xs)" by simp
    from mset_eq_imp_distinct_iff [OF this] assms(1) show ?thesis by simp
  qed
  moreover have "length (map fst ?ys) = length out" by (simp add: out)
  moreover have "mset (zip (map fst ?ys) out) = mset xs"
    by (simp add: out zip_map_fst_snd)
  moreover have "length out = length xs" by (simp add: out)
  moreover have "length pos = length out" by (simp add: pos)
  moreover have "\<forall>i<length out. pos ! i = to_dtype (dtype (tensors (out ! i))) (module1 self (out ! i))
        \<and> dtype (pos ! i) = dtype (tensors (out ! i))"
    by (simp add: pos to_dtype_def)
  ultimately show ?thesis by blast
qed

text \<open>
  C3. Whenever the extraction returns levels, both entry points of the Joiner return two
  lists as long as the number of levels; the features are the levels in ascending order
  of their (distinct) keys, and the position at each index is the position embedding of
  the feature at that index, cast to the element type of the feature's tensor.
\<close>

theorem joiner_sorted_levels:
  "(BackboneBase_forward (module0 self) tlist = Inr xs \<longrightarrow>
      (\<exists>out pos. Joiner_forward self tlist = Inr (out, pos) \<and>
         length out = length xs \<and> length pos = length out \<and>
         (\<exists>ks. sorted ks \<and> distinct ks \<and> length ks = length out \<and>
               mset (zip ks out) = mset xs) \<and>
         (\<forall>i<length out.
            pos ! i = to_dtype (dtype (tensors (out ! i))) (module1 self (out ! i)) \<and>
            dtype (pos ! i) = dtype (tensors (out ! i))))) \<and>
   (support_encoding_net (module0 self) tlist ril = Inr xs' \<longrightarrow>
      (\<exists>out pos. Joiner_forward_supp_branch self tlist ril = Inr (out, pos) \<and>
         length out = length xs' \<and> length pos = length out \<and>
         (\<exists>ks. sorted ks \<and> distinct ks \<and> length ks = length out \<and>
               mset (zip ks out) = mset xs') \<and>
         (\<forall>i<length out.
            pos ! i = to_dtype (dtype (tensors (out ! i))) (module1 self (out ! i)) \<and>
            dtype (pos ! i) = dtype (tensors (out ! i)))))"
proof (intro conjI impI)
  assume xs: "BackboneBase_forward (module0 self) tlist = Inr xs"
  obtain out pos where c: "compose_levels self xs = (out, pos)"
    by (cases "compose_levels self xs")
  have "Joiner_forward self tlist = Inr (out, pos)"
    by (simp add: Joiner_forward_def xs c)
  with compose_levels_props [OF forward_distinct [OF xs] c]
  show "\<exists>out pos. Joiner_forward self tlist = Inr (out, pos) \<and>
         length out = length xs \<and> length pos = length out \<and>
         (\<exists>ks. sorted ks \<and> distinct ks \<and> length ks = length out \<and>
               mset (zip ks out) = mset xs) \<and>
         (\<forall>i<length out.
            pos ! i = to_dtype (dtype (tensors (out ! i))) (module1 self (out ! i)) \<and>
            dtype (pos ! i) = dtype (tensors (out ! i)))"
    by blast
next
  assume xs: "support_encoding_net (module0 self) tlist ril = Inr xs'"
  obtain out pos where c: "compose_levels self xs' = (out, pos)"
    by (cases "compose_levels self xs'")
  have "Joiner_forward_supp_branch self tlist ril = Inr (out, pos)"
    by (simp add: Joiner_forward_supp_branch_def xs c)
  with compose_levels_props [OF support_distinct [OF xs] c]
  show "\<exists>out pos. Joiner_forward_supp_branch self tlist ril = Inr (out, pos) \<and>
         length out = length xs' \<and> length pos = length out \<and>
         (\<exists>ks. sorted ks \<and> distinct ks \<and> length ks = length out \<and>
               mset (zip ks out) = mset xs') \<and>
         (\<forall>i<length out.
            pos ! i = to_dtype (dtype (tensors (out ! i))) (module1 self (out ! i)) \<and>
            dtype (pos ! i) = dtype (tensors (out ! i)))"
    by blast
qed

lemma support_frame:
  "support_encoding_net (self\<lparr>return_layers := rl, strides := s, num_channels := c\<rparr>) tlist flag
     = support_encoding_net self tlist flag"
  by (simp add: support_encoding_net_def)

lemma support_count:
  assumes "support_encoding_net self tlist flag = Inr out"
  shows "map fst out = (if flag then [''0'', ''1'', ''2''] else [''0''])"
proof -
  from support_cases [OF assms] obtain x6 x7 x8 where c:
    "(if flag
     then bind (add_level (mask_nt tlist) x6 ''0'' []) (\<lambda>out.
          bind (add_level (mask_nt tlist) x7 ''1'' out) (\<lambda>out.
          add_level (mask_nt tlist) x8 ''2'' out))
     else add_level (mask_nt tlist) x8 ''0'' []) = Inr out"
    by blast
  show ?thesis
  proof (cases flag)
    case True
    with c obtain o1 o2 where "add_level (mask_nt tlist) x6 ''0'' [] = Inr o1"
      "add_level (mask_nt tlist) x7 ''1'' o1 = Inr o2"
      "add_level (mask_nt tlist) x8 ''2'' o2 = Inr out"
      by (auto simp: bind_Inr_iff)
    with True show ?thesis
      by (auto dest!: add_level_Inr)
  next
    case False
    with c have "add_level (mask_nt tlist) x8 ''0'' [] = Inr out" by simp
    with False show ?thesis by (auto dest!: add_level_Inr)
  qed
qed

text \<open>
  C8. Where the primary extraction of an extractor constructed in multi-level mode
  returns its three levels, the support branch called on the same extractor and input
  with the flag off returns exactly one level, the deepest one. The number of levels of
  the support branch is decided by the flag alone (one without it, three with it),
  whatever the extractor was constructed with.
\<close>

theorem support_flag_decides_levels:
  assumes "Backbone_init resnet imp name tb True a = Inr self"
    and "BackboneBase_forward self tlist = Inr out"
  shows "length out = 3 \<and>
    (\<exists>lv. support_encoding_net self tlist False = Inr [(''0'', lv)] \<and> out ! 2 = (''2'', lv)) \<and>
    (\<exists>fs ps f p. Joiner_forward (Joiner_init self pe) tlist = Inr (fs, ps) \<and> length fs = 3 \<and>
       Joiner_forward_supp_branch (Joiner_init self pe) tlist False = Inr ([f], [p])) \<and>
    (\<forall>self' out'. support_encoding_net self' tlist False = Inr out' \<longrightarrow> length out' = 1) \<and>
    (\<forall>self' out'. support_encoding_net self' tlist True = Inr out' \<longrightarrow> length out' = 3) \<and>
    (\<forall>rl s c flag.
       support_encoding_net (self\<lparr>return_layers := rl, strides := s, num_channels := c\<rparr>)
         tlist flag = support_encoding_net self tlist flag)"
proof -
  from Backbone_init_Inr [OF assms(1)] obtain b where
    "return_layers self = return_layers (BackboneBase_init b tb True)"
    by blast
  then have rl: "return_layers self =
      [(''layer2'', ''0''), (''layer3'', ''1''), (''layer4'', ''2'')]"
    by (simp add: return_layers_init)
  from forward_multi_elim [OF assms(2) rl] obtain x1 x2 x3 x4 x5 x6 x7 x8 m m6 m7 m8 where
    st: "conv1 (backbone self) (tensors tlist) = Inr x1" "bn1 (backbone self) x1 = Inr x2"
      "relu (backbone self) x2 = Inr x3" "maxpool (backbone self) x3 = Inr x4"
      "layer1 (backbone self) x4 = Inr x5" "layer2 (backbone self) x5 = Inr x6"
      "layer3 (backbone self) x6 = Inr x7" "layer4 (backbone self) x7 = Inr x8"
    and m: "mask_nt tlist = Some m" and m8: "interpolate_mask m x8 = Inr m8"
    and out: "out = [(''0'', \<lparr>tensors = x6, mask_nt = Some m6\<rparr>),
           (''1'', \<lparr>tensors = x7, mask_nt = Some m7\<rparr>),
           (''2'', \<lparr>tensors = x8, mask_nt = Some m8\<rparr>)]"
    by blast
  have len: "length out = 3" by (simp add: out)
  have sup: "support_encoding_net self tlist False = Inr [(''0'', \<lparr>tensors = x8, mask_nt = Some m8\<rparr>)]"
    by (simp add: support_stages(1) [OF st] add_level_def m m8)
  have o2: "out ! 2 = (''2'', \<lparr>tensors = x8, mask_nt = Some m8\<rparr>)"
    by (simp add: out)
  have j1: "\<exists>fs ps. Joiner_forward (Joiner_init self pe) tlist = Inr (fs, ps) \<and> length fs = 3"
    by (simp add: Joiner_forward_def Joiner_init_def assms(2) compose_levels_def Let_def len)
  have j2: "\<exists>f p. Joiner_forward_supp_branch (Joiner_init self pe) tlist False = Inr ([f], [p])"
    by (simp add: Joiner_forward_supp_branch_def Joiner_init_def sup compose_levels_def Let_def)
  have c1: "length out' = 1" if "support_encoding_net self' tlist False = Inr out'" for self' out'
  proof -
    from support_count [OF that] have "length (map fst out') = length [''0'']"
      by simp
    then show ?thesis by simp
  qed
  have c3: "length out' = 3" if "support_encoding_net self' tlist True = Inr out'" for self' out'
  proof -
    from support_count [OF that] have "length (map fst out') = length [''0'', ''1'', ''2'']"
      by simp
    then show ?thesis by simp
  qed
  from j1 j2 have j: "\<exists>fs ps f p. Joiner_forward (Joiner_init self pe) tlist = Inr (fs, ps) \<and>
       length fs = 3 \<and>
       Joiner_forward_supp_branch (Joiner_init self pe) tlist False = Inr ([f], [p])"
    by blast
  from sup o2 have s: "\<exists>lv. support_encoding_net self tlist False = Inr [(''0'', lv)] \<and>
      out ! 2 = (''2'', lv)"
    by blast
  show ?thesis
    by (intro conjI allI impI len s j c1 c3 support_frame)
qed

section \<open>The theorems on the example inputs\<close>

lemma interpolate_mask_ok:
  assumes "shape m = [B, H, W]" and "length (shape x) = 4"
    and "0 < H" "0 < W" "0 \<notin> set (last2 (shape x))"
  shows "\<exists>mk. interpolate_mask m x = Inr mk"
  using assms
  by (auto simp: interpolate_mask_def interpolate_def Let_def to_dtype_def unsqueeze0_def
      index0_def last2_def)

lemma example_body_multi:
  "\<exists>x6 x7 x8. body (BackboneBase_init example_trunk tb True) example_image =
       Inr [(''0'', x6), (''1'', x7), (''2'', x8)] \<and>
     shape x6 = [1, 3, 8, 8] \<and> shape x7 = [1, 3, 4, 4] \<and> shape x8 = [1, 3, 2, 2]"
  by (simp add: body_def BackboneBase_init_def named_children_def example_trunk_def halve_def
      example_image_def)

lemma example_init:
  "Backbone_init example_resnet True ''resnet50'' True ril \<lparr>dilation = False\<rparr> =
     Inr (BackboneBase_init example_trunk True ril)"
  by (simp add: Backbone_init_def example_resnet_def Let_def)

lemma example_forward:
  "\<exists>x6 x7 x8 m6 m7 m8.
     BackboneBase_forward (BackboneBase_init example_trunk True True) example_input =
       Inr [(''0'', \<lparr>tensors = x6, mask_nt = Some m6\<rparr>),
            (''1'', \<lparr>tensors = x7, mask_nt = Some m7\<rparr>),
            (''2'', \<lparr>tensors = x8, mask_nt = Some m8\<rparr>)] \<and>
     shape x6 = [1, 3, 8, 8] \<and> shape x7 = [1, 3, 4, 4] \<and> shape x8 = [1, 3, 2, 2]"
proof -
  from example_body_multi [of True] obtain x6 x7 x8 where
    b: "body (BackboneBase_init example_trunk True True) example_image =
       Inr [(''0'', x6), (''1'', x7), (''2'', x8)]"
    and s: "shape x6 = [1, 3, 8, 8]" "shape x7 = [1, 3, 4, 4]" "shape x8 = [1, 3, 2, 2]"
    by blast
  have m: "shape example_mask = [1, 64, 64]" by (simp add: example_mask_def)
  obtain m6 where m6: "interpolate_mask example_mask x6 = Inr m6"
    using interpolate_mask_ok [OF m, of x6] s(1) by (auto simp: last2_def)
  obtain m7 where m7: "interpolate_mask example_mask x7 = Inr m7"
    using interpolate_mask_ok [OF m, of x7] s(2) by (auto simp: last2_def)
  obtain m8 where m8: "interpolate_mask example_mask x8 = Inr m8"
    using interpolate_mask_ok [OF m, of x8] s(3) by (auto simp: last2_def)
  have "BackboneBase_forward (BackboneBase_init example_trunk True True) example_input =
       Inr [(''0'', \<lparr>tensors = x6, mask_nt = Some m6\<rparr>),
            (''1'', \<lparr>tensors = x7, mask_nt = Some m7\<rparr>),
            (''2'', \<lparr>tensors = x8, mask_nt = Some m8\<rparr>)]"
    using b by (simp add: BackboneBase_forward_def example_input_def m6 m7 m8)
  with s show ?thesis by blast
qed

lemma example_support:
  "\<exists>xs. support_encoding_net (BackboneBase_init example_trunk True True) example_input False
     = Inr xs"
proof -
  from example_forward obtain out where
    f: "BackboneBase_forward (BackboneBase_init example_trunk True True) example_input = Inr out"
    by blast
  have rl: "return_layers (BackboneBase_init example_trunk True True) =
      [(''layer2'', ''0''), (''layer3'', ''1''), (''layer4'', ''2'')]"
    by (simp add: return_layers_init)
  from forward_multi_elim [OF f rl] show ?thesis
    by (auto simp: support_encoding_net_def Let_def bind_Inr add_level_def)
qed

text \<open>The theorem of C3 at a concrete input.\<close>

theorem joiner_sorted_levels_witness:
  "\<exists>xs out pos xs' out' pos'.
     BackboneBase_forward (BackboneBase_init example_trunk True True) example_input = Inr xs \<and>
     Joiner_forward (Joiner_init (BackboneBase_init example_trunk True True) example_position)
       example_input = Inr (out, pos) \<and>
     length out = length xs \<and> length pos = length out \<and>
     support_encoding_net (BackboneBase_init example_trunk True True) example_input False
       = Inr xs' \<and>
     Joiner_forward_supp_branch
       (Joiner_init (BackboneBase_init example_trunk True True) example_position)
       example_input False = Inr (out', pos') \<and>
     length out' = length xs' \<and> length pos' = length out'"
proof -
  let ?J = "Joiner_init (BackboneBase_init example_trunk True True) example_position"
  have m0: "module0 ?J = BackboneBase_init example_trunk True True"
    by (simp add: Joiner_init_def)
  from example_forward obtain xs where
    xs: "BackboneBase_forward (module0 ?J) example_input = Inr xs"
    unfolding m0 by blast
  from example_support obtain xs' where
    xs': "support_encoding_net (module0 ?J) example_input False = Inr xs'"
    unfolding m0 by blast
  from joiner_sorted_levels [of ?J example_input xs False xs'] xs xs'
  show ?thesis unfolding m0 by blast
qed

text \<open>The theorem of C4 at a concrete input.\<close>

theorem extractor_levels_witness:
  "(\<exists>self. Backbone_init example_resnet True ''resnet50'' True True \<lparr>dilation = True\<rparr> = Inr self
      \<and> strides self = [8, 16, 16] \<and> num_channels self = [512, 1024, 2048]) \<and>
   (\<exists>self. Backbone_init example_resnet True ''resnet50'' True False \<lparr>dilation = True\<rparr> = Inr self
      \<and> strides self = [16] \<and> num_channels self = [2048])"
proof -
  obtain s1 where s1:
    "Backbone_init example_resnet True ''resnet50'' True True \<lparr>dilation = True\<rparr> = Inr s1"
    by (simp add: Backbone_init_def example_resnet_def Let_def)
  obtain s2 where s2:
    "Backbone_init example_resnet True ''resnet50'' True False \<lparr>dilation = True\<rparr> = Inr s2"
    by (simp add: Backbone_init_def example_resnet_def Let_def)
  from extractor_levels [OF s1] extractor_levels [OF s2] s1 s2 show ?thesis
    by simp
qed

text \<open>
  C4 as the specification words it gives stride 32 to every single-level extractor. With
  dilation the single stride is 16.
\<close>

theorem extractor_levels_counterexample:
  "map_sum id strides
     (Backbone_init example_resnet True ''resnet50'' True False \<lparr>dilation = True\<rparr>) = Inr [16] \<and>
   map_sum id strides
     (Backbone_init example_resnet True ''resnet50'' True False \<lparr>dilation = True\<rparr>) \<noteq> Inr [32]"
  by (simp add: Backbone_init_def example_resnet_def Let_def BackboneBase_init_def)

text \<open>The theorem of C5 at a concrete input.\<close>

theorem level_mask_shape_witness:
  "\<exists>out k lv mk.
     BackboneBase_forward (BackboneBase_init example_trunk True True) example_input = Inr out \<and>
     (k, lv) \<in> set out \<and> 2 \<le> length (shape (tensors lv)) \<and>
     mask_nt lv = Some mk \<and> last2 (shape mk) = last2 (shape (tensors lv)) \<and>
     last2 (shape mk) = [2, 2]"
proof -
  from example_forward obtain x6 x7 x8 m6 m7 m8 where
    f: "BackboneBase_forward (BackboneBase_init example_trunk True True) example_input =
       Inr [(''0'', \<lparr>tensors = x6, mask_nt = Some m6\<rparr>),
            (''1'', \<lparr>tensors = x7, mask_nt = Some m7\<rparr>),
            (''2'', \<lparr>tensors = x8, mask_nt = Some m8\<rparr>)]"
    and s: "shape x8 = [1, 3, 2, 2]"
    by blast
  let ?out = "[(''0'', \<lparr>tensors = x6, mask_nt = Some m6\<rparr>),
            (''1'', \<lparr>tensors = x7, mask_nt = Some m7\<rparr>),
            (''2'', \<lparr>tensors = x8, mask_nt = Some m8\<rparr>)]"
  let ?lv = "\<lparr>tensors = x8, mask_nt = Some m8\<rparr>"
  have mem: "(''2'', ?lv) \<in> set ?out" by simp
  have len: "2 \<le> length (shape (tensors ?lv))" by (simp add: s)
  from level_mask_shape [where ril = False, OF disjI1 [OF f] mem len]
  have "last2 (shape m8) = last2 (shape x8)" by simp
  moreover have "last2 (shape x8) = [2, 2]" by (simp add: s last2_def)
  ultimately show ?thesis using f mem len by (intro exI [of _ ?out] exI [of _ "''2''"] exI [of _ ?lv] exI [of _ m8]) simp
qed

text \<open>The theorem of C6 at a concrete input.\<close>

theorem missing_mask_fails_witness:
  "mask_nt example_unmasked = None \<and>
   Backbone_init example_resnet True ''resnet50'' True True \<lparr>dilation = False\<rparr> =
     Inr (BackboneBase_init example_trunk True True) \<and>
   BackboneBase_forward (BackboneBase_init example_trunk True True) example_unmasked =
     Inl AssertionError \<and>
   support_encoding_net (BackboneBase_init example_trunk True True) example_unmasked False =
     Inl TypeError"
proof -
  have n: "mask_nt example_unmasked = None" by (simp add: example_unmasked_def)
  from example_body_multi [of True] obtain xs where
    "body (BackboneBase_init example_trunk True True) (tensors example_unmasked) = Inr xs"
    by (auto simp: example_unmasked_def)
  with missing_mask_fails [OF n example_init, where ril = True and ril' = False] n
    example_init [of True]
  show ?thesis by blast
qed

text \<open>The theorem of C8 at a concrete input.\<close>

theorem support_flag_decides_levels_witness:
  "Backbone_init example_resnet True ''resnet50'' True True \<lparr>dilation = False\<rparr> =
     Inr (BackboneBase_init example_trunk True True) \<and>
   (\<exists>out lv.
      BackboneBase_forward (BackboneBase_init example_trunk True True) example_input = Inr out \<and>
      length out = 3 \<and>
      support_encoding_net (BackboneBase_init example_trunk True True) example_input False =
        Inr [(''0'', lv)] \<and>
      out ! 2 = (''2'', lv))"
proof -
  from example_forward obtain out where
    f: "BackboneBase_forward (BackboneBase_init example_trunk True True) example_input = Inr out"
    by blast
  from support_flag_decides_levels [OF example_init f] f example_init [of True]
  show ?thesis by blast
qed

text \<open>The theorem of C9 at a concrete input.\<close>

theorem small_resnet_rejected_witness:
  "(''resnet18'' = ''resnet18'' \<or> ''resnet18'' = ''resnet34'') \<and>
   Backbone_init example_resnet True ''resnet18'' True True \<lparr>dilation = False\<rparr> =
     Inl AssertionError"
proof -
  have h: "''resnet18'' = ''resnet18'' \<or> ''resnet18'' = ''resnet34''" by simp
  have r: "example_resnet ''resnet18'' [False, False, dilation \<lparr>dilation = False\<rparr>] True =
      Inr example_trunk"
    by (simp add: example_resnet_def)
  from small_resnet_rejected [OF h, where resnet = example_resnet and a = "\<lparr>dilation = False\<rparr>"
      and imp = True and tb = True and ril = True] r
  show ?thesis by simp
qed

lemma example_load:
  "load_from_state_dict (FrozenBatchNorm2d_init 2 (Fin 1)) example_state_dict ''bn1.'' True [] [] [] =
     \<lparr>module = \<lparr>weight = [Fin 2, Fin 4], bias = [Fin 1, Fin 0],
                 running_mean = [Fin 1, Fin 2], running_var = [Fin 0, Fin 3], eps = Fin 1\<rparr>,
      state_dict = [(''bn1.weight'', vector [Fin 2, Fin 4]),
                    (''bn1.bias'', vector [Fin 1, Fin 0]),
                    (''bn1.running_mean'', vector [Fin 1, Fin 2]),
                    (''bn1.running_var'', vector [Fin 0, Fin 3])],
      missing_keys = [], unexpected_keys = [], error_msgs = []\<rparr>"
  by (simp add: load_from_state_dict_def Let_def dict_contains_def dict_del_def
      example_state_dict_def Module_load_from_state_dict_def load_buffer_def vector_def
      FrozenBatchNorm2d_init_def startswith_def input_name_def local_state_def
      numeral_2_eq_2)

lemma example_base_load:
  "unexpected_keys (Module_load_from_state_dict (FrozenBatchNorm2d_init 2 (Fin 1)) example_state_dict
      ''bn1.'' True [] [] []) = [''bn1.num_batches_tracked'']"
  by (simp add: unexpected_Module example_state_dict_def startswith_def input_name_def
      local_state_def)

text \<open>
  The theorem of C7 at a concrete input: a strict load of a checkpoint with the counter
  reports nothing, where the inherited loader alone reports the counter as unexpected.
\<close>

theorem load_counter_key_ignored_witness:
  "load_from_state_dict (FrozenBatchNorm2d_init 2 (Fin 1)) example_state_dict ''bn1.'' True [] [] [] =
     load_from_state_dict (FrozenBatchNorm2d_init 2 (Fin 1))
       (dict_del ''bn1.num_batches_tracked'' example_state_dict) ''bn1.'' True [] [] [] \<and>
   module (load_from_state_dict (FrozenBatchNorm2d_init 2 (Fin 1)) example_state_dict ''bn1.'' True
      [] [] []) =
     \<lparr>weight = [Fin 2, Fin 4], bias = [Fin 1, Fin 0], running_mean = [Fin 1, Fin 2],
      running_var = [Fin 0, Fin 3], eps = Fin 1\<rparr> \<and>
   missing_keys (load_from_state_dict (FrozenBatchNorm2d_init 2 (Fin 1)) example_state_dict ''bn1.''
      True [] [] []) = [] \<and>
   unexpected_keys (load_from_state_dict (FrozenBatchNorm2d_init 2 (Fin 1)) example_state_dict ''bn1.''
      True [] [] []) = [] \<and>
   error_msgs (load_from_state_dict (FrozenBatchNorm2d_init 2 (Fin 1)) example_state_dict ''bn1.''
      True [] [] []) = [] \<and>
   unexpected_keys (Module_load_from_state_dict (FrozenBatchNorm2d_init 2 (Fin 1)) example_state_dict
      ''bn1.'' True [] [] []) = [''bn1.num_batches_tracked'']"
proof -
  have e: "load_from_state_dict (FrozenBatchNorm2d_init 2 (Fin 1)) example_state_dict ''bn1.'' True
      [] [] [] =
     load_from_state_dict (FrozenBatchNorm2d_init 2 (Fin 1))
       (dict_del ''bn1.num_batches_tracked'' example_state_dict) ''bn1.'' True [] [] []"
    using load_counter_key_ignored [of "FrozenBatchNorm2d_init 2 (Fin 1)" example_state_dict
        "''bn1.''" True "[]" "[]" "[]"]
    by simp
  show ?thesis
    by (intro conjI e example_base_load) (simp_all add: example_load)
qed

text \<open>The theorem of C10 at a concrete input.\<close>

theorem load_deletes_key_witness:
  "dict_contains ''bn1.num_batches_tracked'' example_state_dict \<and>
   \<not> dict_contains ''bn1.num_batches_tracked''
       (state_dict (load_from_state_dict (FrozenBatchNorm2d_init 2 (Fin 1)) example_state_dict
          ''bn1.'' True [] [] [])) \<and>
   map fst (state_dict (load_from_state_dict (FrozenBatchNorm2d_init 2 (Fin 1)) example_state_dict
          ''bn1.'' True [] [] [])) =
     [''bn1.weight'', ''bn1.bias'', ''bn1.running_mean'', ''bn1.running_var'']"
  using load_deletes_key [of "FrozenBatchNorm2d_init 2 (Fin 1)" example_state_dict "''bn1.''"
      True "[]" "[]" "[]"]
  by (simp add: example_load) (simp add: dict_contains_def example_state_dict_def)

end
